theory Spec2Isabelle
  imports Main "HOL-Library.Word" "HOL-Library.Sublist"
begin

section \<open>Values of the host language\<close>

text \<open>
  A string of the program is a sequence of 16-bit code units; \<open>length\<close> is then what
  the source's \<open>.length\<close> counts and \<open>take\<close> is \<open>substring(0, n)\<close>. Literals of the
  source are written \<open>str ''...''\<close>.
\<close>

type_synonym unit16 = "16 word"
type_synonym jsstring = "unit16 list"

definition str :: "string \<Rightarrow> jsstring" where
  "str s = map of_char s"

text \<open>
  Decimal rendering of an integer, as a template literal renders a number. The source's
  numbers are doubles; the model is exact for the integers a double holds exactly.
\<close>

fun show_nat :: "nat \<Rightarrow> jsstring" where
  "show_nat n =
     (if n < 10 then [of_nat (48 + n)]
      else show_nat (n div 10) @ [of_nat (48 + n mod 10)])"

declare show_nat.simps [simp del]

definition show_int :: "int \<Rightarrow> jsstring" where
  "show_int i = (if i < 0 then 0x2D # show_nat (nat (- i)) else show_nat (nat i))"

text \<open>
  A parsed JSON document. A number is an integer here: the Shaper copies the numbers of
  a document and computes with none of them. An object is the list of its entries in the
  order \<open>Object.entries\<close> enumerates them; a parsed document has pairwise distinct keys.
\<close>

datatype json =
    JNull
  | JBool bool
  | JNum int
  | JStr jsstring
  | JArr "json list"
  | JObj "(jsstring \<times> json) list"

definition isArray :: "json \<Rightarrow> bool" where
  "isArray v = (case v of JArr xs \<Rightarrow> True | _ \<Rightarrow> False)"

text \<open>Property lookup \<open>obj.name\<close> on a parsed object; \<open>None\<close> is \<open>undefined\<close>.\<close>

definition field :: "string \<Rightarrow> json \<Rightarrow> json option" where
  "field name v = (case v of JObj kvs \<Rightarrow> map_of kvs (str name) | _ \<Rightarrow> None)"

text \<open>
  \<open>xs.slice(0, end)\<close>: a negative \<open>end\<close> counts from the end of the array, anything
  else is capped at its length.
\<close>

definition slice0 :: "int \<Rightarrow> 'a list \<Rightarrow> 'a list" where
  "slice0 e xs = (if e < 0 then take (nat (int (length xs) + e)) xs else take (nat e) xs)"

text \<open>
  A loop that copies an object, \<open>result[key] = \<dots>\<close> for each entry into a fresh object
  literal, stores one entry per assignment, except under the key \<open>__proto__\<close>: that
  assignment sets the prototype of \<open>result\<close> (or does nothing, when the value is not an
  object) and stores no entry, so the key is absent from \<open>Object.entries\<close> and from the
  serialisation of the copy. \<open>stored\<close> keeps the entries that such a loop stores.
\<close>

definition stored :: "(jsstring \<times> json) list \<Rightarrow> (jsstring \<times> json) list" where
  "stored kvs = filter (\<lambda>(key, v). key \<noteq> str ''__proto__'') kvs"


section \<open>Configuration\<close>

text \<open>
  The interface \<open>WhaleboneConfig\<close>. Optional fields are options; for a number, \<open>None\<close>
  also stands for the \<open>NaN\<close> that \<open>parseInt\<close> gives on a malformed setting (both are
  falsy where the source reads them).
\<close>

record WhaleboneConfig =
  accessKey :: jsstring
  secretKey :: jsstring
  baseUrl :: "jsstring option"
  maxResults :: "int option"
  maxResponseSize :: "int option"
  enableTruncation :: "bool option"

definition DEFAULT_MAX_RESULTS :: int where
  "DEFAULT_MAX_RESULTS = 50"

definition DEFAULT_MAX_RESPONSE_SIZE :: int where
  "DEFAULT_MAX_RESPONSE_SIZE = 50000"

definition MAX_STRING_LENGTH :: nat where
  "MAX_STRING_LENGTH = 1000"

text \<open>\<open>n || d\<close> on an optional number: zero, \<open>NaN\<close> and \<open>undefined\<close> give the default.\<close>

definition or_default :: "int option \<Rightarrow> int \<Rightarrow> int" where
  "or_default n d = (case n of None \<Rightarrow> d | Some v \<Rightarrow> if v = 0 then d else v)"

text \<open>\<open>this.config.enableTruncation\<close> read as a condition.\<close>

definition truncationOn :: "WhaleboneConfig \<Rightarrow> bool" where
  "truncationOn cfg = (enableTruncation cfg = Some True)"

text \<open>The configuration the process builds when no setting is present in its environment.\<close>

definition default_config :: WhaleboneConfig where
  "default_config =
     \<lparr> accessKey = [], secretKey = [],
       baseUrl = Some (str ''https://api.whalebone.io/whalebone/2''),
       maxResults = Some 50, maxResponseSize = Some 50000,
       enableTruncation = Some True \<rparr>"


section \<open>Response Shaper\<close>

subsection \<open>String truncation\<close>

definition truncateString :: "WhaleboneConfig \<Rightarrow> jsstring \<Rightarrow> nat \<Rightarrow> jsstring" where
  "truncateString cfg s maxLength =
     (if \<not> truncationOn cfg \<or> length s \<le> maxLength then s
      else take maxLength s @ str ''... [truncated]'')"

fun truncateObject :: "WhaleboneConfig \<Rightarrow> json \<Rightarrow> json" where
  "truncateObject cfg (JStr s) =
     (if \<not> truncationOn cfg then JStr s
      else JStr (truncateString cfg s MAX_STRING_LENGTH))"
| "truncateObject cfg (JArr xs) =
     (if \<not> truncationOn cfg then JArr xs
      else JArr (map (truncateObject cfg) xs))"
| "truncateObject cfg (JObj kvs) =
     (if \<not> truncationOn cfg then JObj kvs
      else JObj (stored (map (\<lambda>(key, v). (key, truncateObject cfg v)) kvs)))"
| "truncateObject cfg obj = obj"

subsection \<open>Result-count limiting\<close>

definition limit_message :: "int \<Rightarrow> nat \<Rightarrow> jsstring" where
  "limit_message lim len =
     str ''Results limited to '' @ show_int lim @ str '' items out of '' @ show_nat len
       @ str '' total. Use pagination parameters to access more results.''"

text \<open>
  \<open>limitResults(data, maxResults)\<close>; the limit is the second argument here, and
  \<open>processResponse\<close> passes the default of the source,
  \<open>this.config.maxResults || DEFAULT_MAX_RESULTS\<close>.
\<close>

fun limitResults :: "int \<Rightarrow> json \<Rightarrow> json" where
  "limitResults lim (JArr xs) =
     (let limited = slice0 lim xs in
      if int (length xs) > lim then
        JObj [(str ''results'', JArr limited),
              (str ''total_available'', JNum (int (length xs))),
              (str ''returned'', JNum (int (length limited))),
              (str ''truncated'', JBool True),
              (str ''message'', JStr (limit_message lim (length xs)))]
      else JArr limited)"
| "limitResults lim (JObj kvs) =
     JObj (stored
             (map (\<lambda>(key, v). (key, if isArray v then limitResults lim v else v)) kvs))"
| "limitResults lim data = data"


subsection \<open>Serialisation\<close>

text \<open>
  \<open>JSON.stringify\<close>. A string is quoted with the two-character escapes, with \<open>\u00xx\<close>
  for the other control units and for a surrogate that has no partner; everything else is
  copied. With the gap empty the output is compact; with a gap each nesting level starts
  a new line, indented by one more gap.
\<close>

definition is_high_surrogate :: "unit16 \<Rightarrow> bool" where
  "is_high_surrogate u = (0xD800 \<le> u \<and> u \<le> 0xDBFF)"

definition is_low_surrogate :: "unit16 \<Rightarrow> bool" where
  "is_low_surrogate u = (0xDC00 \<le> u \<and> u \<le> 0xDFFF)"

definition hex_digit :: "nat \<Rightarrow> unit16" where
  "hex_digit d = (if d < 10 then of_nat (48 + d) else of_nat (87 + d))"

definition unicode_escape :: "unit16 \<Rightarrow> jsstring" where
  "unicode_escape u =
     [0x5C, 0x75, hex_digit (unat u div 4096), hex_digit (unat u div 256 mod 16),
      hex_digit (unat u div 16 mod 16), hex_digit (unat u mod 16)]"

definition escape_unit :: "unit16 \<Rightarrow> jsstring" where
  "escape_unit u =
     (if u = 0x08 then [0x5C, 0x62]
      else if u = 0x09 then [0x5C, 0x74]
      else if u = 0x0A then [0x5C, 0x6E]
      else if u = 0x0C then [0x5C, 0x66]
      else if u = 0x0D then [0x5C, 0x72]
      else if u = 0x22 then [0x5C, 0x22]
      else if u = 0x5C then [0x5C, 0x5C]
      else if u < 0x20 then unicode_escape u
      else [u])"

fun quote_units :: "jsstring \<Rightarrow> jsstring" where
  "quote_units [] = []"
| "quote_units [u] =
     (if is_high_surrogate u \<or> is_low_surrogate u then unicode_escape u else escape_unit u)"
| "quote_units (u # v # rest) =
     (if is_high_surrogate u \<and> is_low_surrogate v then u # v # quote_units rest
      else if is_high_surrogate u \<or> is_low_surrogate u
        then unicode_escape u @ quote_units (v # rest)
      else escape_unit u @ quote_units (v # rest))"

definition QuoteJSONString :: "jsstring \<Rightarrow> jsstring" where
  "QuoteJSONString s = 0x22 # quote_units s @ [0x22]"

fun join :: "'a list \<Rightarrow> 'a list list \<Rightarrow> 'a list" where
  "join sep [] = []"
| "join sep [x] = x"
| "join sep (x # y # ys) = x @ sep @ join sep (y # ys)"

fun serialize :: "jsstring \<Rightarrow> jsstring \<Rightarrow> json \<Rightarrow> jsstring" where
  "serialize gap indent JNull = str ''null''"
| "serialize gap indent (JBool b) = (if b then str ''true'' else str ''false'')"
| "serialize gap indent (JNum n) = show_int n"
| "serialize gap indent (JStr s) = QuoteJSONString s"
| "serialize gap indent (JArr xs) =
     (if xs = [] then str ''[]''
      else if gap = [] then
        str ''['' @ join (str '','') (map (serialize gap (indent @ gap)) xs) @ str '']''
      else
        str ''['' @ 0x0A # (indent @ gap)
          @ join (0x2C # 0x0A # (indent @ gap)) (map (serialize gap (indent @ gap)) xs)
          @ 0x0A # indent @ str '']'')"
| "serialize gap indent (JObj kvs) =
     (if kvs = [] then str ''{}''
      else if gap = [] then
        str ''{''
          @ join (str '','')
              (map (\<lambda>(key, v). QuoteJSONString key @ str '':'' @ serialize gap (indent @ gap) v)
                 kvs)
          @ str ''}''
      else
        str ''{'' @ 0x0A # (indent @ gap)
          @ join (0x2C # 0x0A # (indent @ gap))
              (map (\<lambda>(key, v). QuoteJSONString key @ str '': '' @ serialize gap (indent @ gap) v)
                 kvs)
          @ 0x0A # indent @ str ''}'')"

text \<open>\<open>JSON.stringify(v)\<close> and \<open>JSON.stringify(v, null, 2)\<close>.\<close>

definition JSON_stringify :: "json \<Rightarrow> jsstring" where
  "JSON_stringify v = serialize [] [] v"

definition JSON_stringify_pretty :: "json \<Rightarrow> jsstring" where
  "JSON_stringify_pretty v = serialize (str ''  '') [] v"

subsection \<open>Total-size enforcement\<close>

definition size_message :: "int \<Rightarrow> nat \<Rightarrow> jsstring" where
  "size_message shown len =
     str ''Response truncated due to size constraints. Showing '' @ show_int shown
       @ str '' of '' @ show_nat len @ str '' items.''"

text \<open>
  \<open>Math.floor(maxSize / itemSize * 0.8)\<close> with \<open>itemSize = Math.floor(length / count)\<close>,
  in exact integer arithmetic. The source computes it in doubles, which give the same
  integer at the sizes a response has. On an empty array \<open>itemSize\<close> is infinite and the
  result is zero. On a non-empty array \<open>itemSize\<close> is positive (lemma
  \<open>itemSize_positive\<close> below).
\<close>

definition maxItems :: "int \<Rightarrow> nat \<Rightarrow> nat \<Rightarrow> int" where
  "maxItems maxSize len count =
     (if count = 0 then 0
      else (maxSize * 4) div (int (len div count) * 5))"

definition enforceResponseSize :: "WhaleboneConfig \<Rightarrow> json \<Rightarrow> json" where
  "enforceResponseSize cfg data =
     (let jsonString = JSON_stringify data;
          maxSize = or_default (maxResponseSize cfg) DEFAULT_MAX_RESPONSE_SIZE
      in if int (length jsonString) \<le> maxSize then data
         else case data of
           JArr xs \<Rightarrow>
             (let shown = max 1 (maxItems maxSize (length jsonString) (length xs)) in
              JObj [(str ''results'', JArr (slice0 shown xs)),
                    (str ''total_available'', JNum (int (length xs))),
                    (str ''returned'', JNum shown),
                    (str ''truncated'', JBool True),
                    (str ''message'', JStr (size_message shown (length xs)))])
         | _ \<Rightarrow> truncateObject cfg data)"

subsection \<open>The pipeline\<close>

definition processResponse :: "WhaleboneConfig \<Rightarrow> json \<Rightarrow> json" where
  "processResponse cfg data =
     (let processed = limitResults (or_default (maxResults cfg) DEFAULT_MAX_RESULTS) data;
          processed = truncateObject cfg processed;
          processed = enforceResponseSize cfg processed
      in processed)"



section \<open>API Gateway\<close>

subsection \<open>Conversion to a string\<close>

text \<open>
  \<open>ToString\<close> of a value of an argument bag. A call \<open>v.toString()\<close> is \<open>ToString v\<close>
  on everything but \<open>null\<close>, where it throws.
\<close>

fun ToString :: "json \<Rightarrow> jsstring" where
  "ToString JNull = str ''null''"
| "ToString (JBool b) = (if b then str ''true'' else str ''false'')"
| "ToString (JNum n) = show_int n"
| "ToString (JStr s) = s"
| "ToString (JArr xs) = join (str '','') (map (\<lambda>x. if x = JNull then [] else ToString x) xs)"
| "ToString (JObj kvs) = str ''[object Object]''"

subsection \<open>Errors\<close>

text \<open>
  What the code throws, or what the platform throws under it. Each is an \<open>Error\<close> object;
  the handler reads its \<open>message\<close>. The messages of the platform's own errors (a failed
  \<open>fetch\<close>, a body that does not parse) come with the failure.
\<close>

datatype error =
    ApiError nat jsstring
  | MissingFqdn
  | UnknownTool jsstring
  | NullToString
  | InvalidUrl
  | FetchFailed jsstring
  | BodyNotJson jsstring

fun error_message :: "error \<Rightarrow> jsstring" where
  "error_message (ApiError status statusText) =
     str ''Whalebone API error: '' @ show_nat status @ str '' '' @ statusText"
| "error_message MissingFqdn = str ''fqdn parameter is required''"
| "error_message (UnknownTool name) = str ''Unknown tool: '' @ name"
| "error_message NullToString =
     str ''Cannot read properties of null (reading '' @ 0x27 # str ''toString'' @ 0x27 # str '')''"
| "error_message InvalidUrl = str ''Invalid URL''"
| "error_message (FetchFailed msg) = msg"
| "error_message (BodyNotJson msg) = msg"

subsection \<open>Query parameters\<close>

text \<open>
  \<open>url.searchParams\<close> is the list of name-value pairs appended so far. The two nested
  \<open>forEach\<close> loops of \<open>makeRequest\<close> thread it: \<open>add_params\<close> walks the entries of the
  bag, \<open>append_value\<close> is the body of that loop and \<open>append_each\<close> walks the elements of
  a sequence value. \<open>None\<close> is \<open>undefined\<close>.
\<close>

type_synonym search_params = "(jsstring \<times> jsstring) list"

fun append_each :: "jsstring \<Rightarrow> json list \<Rightarrow> search_params \<Rightarrow> error + search_params" where
  "append_each key [] sp = Inr sp"
| "append_each key (v # vs) sp =
     (if v = JNull then Inl NullToString
      else append_each key vs (sp @ [(key, ToString v)]))"

fun append_value :: "jsstring \<Rightarrow> json option \<Rightarrow> search_params \<Rightarrow> error + search_params" where
  "append_value key None sp = Inr sp"
| "append_value key (Some JNull) sp = Inr sp"
| "append_value key (Some (JArr vs)) sp = append_each key vs sp"
| "append_value key (Some v) sp = Inr (sp @ [(key, ToString v)])"

fun add_params :: "(jsstring \<times> json option) list \<Rightarrow> search_params \<Rightarrow> error + search_params" where
  "add_params [] sp = Inr sp"
| "add_params ((key, val) # rest) sp =
     (case append_value key val sp of
        Inl e \<Rightarrow> Inl e
      | Inr sp' \<Rightarrow> add_params rest sp')"

text \<open>
  The serialisation of the pairs in the URL (\<open>application/x-www-form-urlencoded\<close>): the
  UTF-8 bytes of name and value, letters, digits and \<open>* - . _\<close> as they are, a space as
  \<open>+\<close>, any other byte as \<open>%XX\<close>; a surrogate without partner becomes U+FFFD first.
\<close>

fun code_points :: "jsstring \<Rightarrow> nat list" where
  "code_points [] = []"
| "code_points [u] =
     [if is_high_surrogate u \<or> is_low_surrogate u then 0xFFFD else unat u]"
| "code_points (u # v # rest) =
     (if is_high_surrogate u \<and> is_low_surrogate v
        then (0x10000 + (unat u - 0xD800) * 0x400 + (unat v - 0xDC00)) # code_points rest
      else (if is_high_surrogate u \<or> is_low_surrogate u then 0xFFFD else unat u)
             # code_points (v # rest))"

definition utf8_bytes :: "nat \<Rightarrow> nat list" where
  "utf8_bytes c =
     (if c < 0x80 then [c]
      else if c < 0x800 then [0xC0 + c div 64, 0x80 + c mod 64]
      else if c < 0x10000 then [0xE0 + c div 4096, 0x80 + c div 64 mod 64, 0x80 + c mod 64]
      else [0xF0 + c div 262144, 0x80 + c div 4096 mod 64, 0x80 + c div 64 mod 64,
            0x80 + c mod 64])"

definition HEX_digit :: "nat \<Rightarrow> unit16" where
  "HEX_digit d = (if d < 10 then of_nat (48 + d) else of_nat (55 + d))"

definition urlencode_byte :: "nat \<Rightarrow> jsstring" where
  "urlencode_byte b =
     (if (0x30 \<le> b \<and> b \<le> 0x39) \<or> (0x41 \<le> b \<and> b \<le> 0x5A) \<or> (0x61 \<le> b \<and> b \<le> 0x7A)
         \<or> b = 0x2A \<or> b = 0x2D \<or> b = 0x2E \<or> b = 0x5F
        then [of_nat b]
      else if b = 0x20 then [0x2B]
      else [0x25, HEX_digit (b div 16), HEX_digit (b mod 16)])"

definition form_urlencode :: "jsstring \<Rightarrow> jsstring" where
  "form_urlencode s = concat (map urlencode_byte (concat (map utf8_bytes (code_points s))))"

definition serialize_query :: "search_params \<Rightarrow> jsstring" where
  "serialize_query sp =
     join (str ''&'') (map (\<lambda>(name, v). form_urlencode name @ str ''='' @ form_urlencode v) sp)"

subsection \<open>The outbound request\<close>

text \<open>
  The remote API and the network are a parameter \<open>fetch\<close>: it maps the request to a
  network failure or to a response with its status, status text and body, the body either
  parsed or the message of the parse failure. \<open>makeRequest\<close> returns its outcome together
  with the requests it has issued. \<open>baseUrl\<close> followed by the endpoint is taken to be an
  absolute URL without a query of its own; without a \<open>baseUrl\<close> the \<open>URL\<close> constructor
  throws.
\<close>

record request =
  url :: jsstring
  http_method :: jsstring
  headers :: "(jsstring \<times> jsstring) list"

datatype fetch_result =
    NetworkFailure jsstring
  | Response nat jsstring "jsstring + json"

definition response_ok :: "nat \<Rightarrow> bool" where
  "response_ok status = (200 \<le> status \<and> status \<le> 299)"

definition makeRequest ::
  "WhaleboneConfig \<Rightarrow> (request \<Rightarrow> fetch_result) \<Rightarrow> jsstring
     \<Rightarrow> (jsstring \<times> json option) list \<Rightarrow> (error + json) \<times> request list" where
  "makeRequest cfg fetch endpoint params =
     (case baseUrl cfg of
        None \<Rightarrow> (Inl InvalidUrl, [])
      | Some base \<Rightarrow>
          (case add_params params [] of
             Inl e \<Rightarrow> (Inl e, [])
           | Inr sp \<Rightarrow>
               (let req = \<lparr> url = base @ endpoint
                                  @ (if sp = [] then [] else 0x3F # serialize_query sp),
                            http_method = str ''GET'',
                            headers = [(str ''Wb-Access-Key'', accessKey cfg),
                                       (str ''Wb-Secret-Key'', secretKey cfg),
                                       (str ''Content-Type'', str ''application/json'')] \<rparr>
                in case fetch req of
                     NetworkFailure msg \<Rightarrow> (Inl (FetchFailed msg), [req])
                   | Response status statusText body \<Rightarrow>
                       if \<not> response_ok status
                         then (Inl (ApiError status statusText), [req])
                       else (case body of
                               Inl msg \<Rightarrow> (Inl (BodyNotJson msg), [req])
                             | Inr rawData \<Rightarrow> (Inr (processResponse cfg rawData), [req])))))"

definition searchEvents where
  "searchEvents cfg fetch params = makeRequest cfg fetch (str ''/events/search'') params"

definition getEventsTimeline where
  "getEventsTimeline cfg fetch params = makeRequest cfg fetch (str ''/events/timeline'') params"

definition getEventsStats where
  "getEventsStats cfg fetch params = makeRequest cfg fetch (str ''/events/stats'') params"

definition getDnsTimeline where
  "getDnsTimeline cfg fetch params = makeRequest cfg fetch (str ''/dns/timeline'') params"

definition getDnssecTimeline where
  "getDnssecTimeline cfg fetch params = makeRequest cfg fetch (str ''/dnssec/timeline'') params"

definition getIocCount where
  "getIocCount cfg fetch = makeRequest cfg fetch (str ''/ioc/count'') []"

definition getResolverMetrics where
  "getResolverMetrics cfg fetch params = makeRequest cfg fetch (str ''/resolver/metrics'') params"

definition getDomainAnalysis where
  "getDomainAnalysis cfg fetch fqdn =
     makeRequest cfg fetch (str ''/domain/analysis'') [(str ''fqdn'', fqdn)]"

subsection \<open>The tool-call handler\<close>

text \<open>\<open>!v\<close> is \<open>\<not> truthy v\<close>; \<open>s.includes(sub)\<close> is \<open>js_includes s sub\<close>.\<close>

fun truthy :: "json option \<Rightarrow> bool" where
  "truthy None = False"
| "truthy (Some JNull) = False"
| "truthy (Some (JBool b)) = b"
| "truthy (Some (JNum n)) = (n \<noteq> 0)"
| "truthy (Some (JStr s)) = (s \<noteq> [])"
| "truthy (Some v) = True"

definition entries :: "(jsstring \<times> json) list \<Rightarrow> (jsstring \<times> json option) list" where
  "entries toolArgs = map (\<lambda>(key, v). (key, Some v)) toolArgs"

definition js_includes :: "jsstring \<Rightarrow> string \<Rightarrow> bool" where
  "js_includes s sub = sublist (str sub) s"

definition size_tip :: jsstring where
  "size_tip = 0x0A # 0x0A # str ''Tip: Try using more specific filters (date ranges, domains, IPs) or pagination to get smaller result sets.''"

text \<open>The \<open>catch\<close> block of the handler.\<close>

definition error_result :: "error \<Rightarrow> json" where
  "error_result e =
     (let errorMessage = error_message e;
          helpfulError =
            (if js_includes errorMessage ''too large'' \<or> js_includes errorMessage ''truncated''
               then errorMessage @ size_tip
             else errorMessage)
      in JObj [(str ''content'',
                  JArr [JObj [(str ''type'', JStr (str ''text'')),
                              (str ''text'', JStr (str ''Error: '' @ helpfulError))]]),
               (str ''isError'', JBool True)])"

text \<open>The \<open>switch\<close> over the tool name, and the handler around it.\<close>

definition dispatch ::
  "WhaleboneConfig \<Rightarrow> (request \<Rightarrow> fetch_result) \<Rightarrow> jsstring
     \<Rightarrow> (jsstring \<times> json) list \<Rightarrow> (error + json) \<times> request list" where
  "dispatch cfg fetch name toolArgs =
     (if name = str ''search_events'' then searchEvents cfg fetch (entries toolArgs)
      else if name = str ''get_events_timeline''
        then getEventsTimeline cfg fetch (entries toolArgs)
      else if name = str ''get_events_stats''
        then getEventsStats cfg fetch (entries toolArgs)
      else if name = str ''get_dns_timeline''
        then getDnsTimeline cfg fetch (entries toolArgs)
      else if name = str ''get_dnssec_timeline''
        then getDnssecTimeline cfg fetch (entries toolArgs)
      else if name = str ''get_ioc_count'' then getIocCount cfg fetch
      else if name = str ''get_resolver_metrics''
        then getResolverMetrics cfg fetch (entries toolArgs)
      else if name = str ''analyze_domain'' then
        (if \<not> truthy (map_of toolArgs (str ''fqdn''))
           then (Inl MissingFqdn, [])
         else getDomainAnalysis cfg fetch (map_of toolArgs (str ''fqdn'')))
      else (Inl (UnknownTool name), []))"

definition callTool ::
  "WhaleboneConfig \<Rightarrow> (request \<Rightarrow> fetch_result) \<Rightarrow> jsstring
     \<Rightarrow> (jsstring \<times> json) list option \<Rightarrow> json \<times> request list" where
  "callTool cfg fetch name args =
     (let toolArgs = (case args of None \<Rightarrow> [] | Some a \<Rightarrow> a)
      in case dispatch cfg fetch name toolArgs of
           (Inr result, sent) \<Rightarrow>
             (JObj [(str ''content'',
                       JArr [JObj [(str ''type'', JStr (str ''text'')),
                                   (str ''text'', JStr (JSON_stringify_pretty result))]])],
              sent)
         | (Inl e, sent) \<Rightarrow> (error_result e, sent))"


section \<open>Notions used in the statements\<close>



text \<open>A code unit that \<open>JSON.stringify\<close> copies into a quoted string as it is.\<close>

definition plain_unit :: "unit16 \<Rightarrow> bool" where
  "plain_unit u = (0x20 \<le> u \<and> u \<noteq> 0x22 \<and> u \<noteq> 0x5C \<and> u < 0xD800)"

text \<open>The default configuration with a limit of two results, and with a negative limit.\<close>

definition two_results_config :: WhaleboneConfig where
  "two_results_config = default_config \<lparr> maxResults := Some 2 \<rparr>"

definition negative_results_config :: WhaleboneConfig where
  "negative_results_config = default_config \<lparr> maxResults := Some (- 1) \<rparr>"

text \<open>The default configuration with truncation switched off.\<close>

definition truncation_off_config :: WhaleboneConfig where
  "truncation_off_config = default_config \<lparr> enableTruncation := Some False \<rparr>"

text \<open>
  The argument bag of the specification: every value is absent, null, a scalar or a
  sequence of strings. \<open>spec_query_pairs\<close> is the query the specification describes for
  it: per entry, nothing for an absent or null value, one pair per element of a sequence,
  one pair for a scalar.
\<close>

definition is_string :: "json \<Rightarrow> bool" where
  "is_string v = (case v of JStr s \<Rightarrow> True | _ \<Rightarrow> False)"

definition is_scalar :: "json \<Rightarrow> bool" where
  "is_scalar v = (case v of JStr s \<Rightarrow> True | JNum n \<Rightarrow> True | JBool b \<Rightarrow> True | _ \<Rightarrow> False)"

fun bag_value :: "json option \<Rightarrow> bool" where
  "bag_value None = True"
| "bag_value (Some JNull) = True"
| "bag_value (Some (JArr vs)) = list_all is_string vs"
| "bag_value (Some v) = is_scalar v"

definition argument_bag :: "(jsstring \<times> json option) list \<Rightarrow> bool" where
  "argument_bag params = list_all (\<lambda>(key, val). bag_value val) params"

fun spec_entry_pairs :: "jsstring \<Rightarrow> json option \<Rightarrow> search_params" where
  "spec_entry_pairs key None = []"
| "spec_entry_pairs key (Some JNull) = []"
| "spec_entry_pairs key (Some (JArr vs)) = map (\<lambda>v. (key, ToString v)) vs"
| "spec_entry_pairs key (Some v) = [(key, ToString v)]"

definition spec_query_pairs :: "(jsstring \<times> json option) list \<Rightarrow> search_params" where
  "spec_query_pairs params = concat (map (\<lambda>(key, val). spec_entry_pairs key val) params)"

definition example_bag :: "(jsstring \<times> json option) list" where
  "example_bag =
     [(str ''domain'', Some (JStr (str ''example.com''))),
      (str ''device_id'', Some (JArr [JStr (str ''a''), JStr (str ''b'')])),
      (str ''limit'', None)]"

text \<open>The tools whose argument bag goes to the API as it is.\<close>

definition request_tools :: "jsstring list" where
  "request_tools =
     [str ''search_events'', str ''get_events_timeline'', str ''get_events_stats'',
      str ''get_dns_timeline'', str ''get_dnssec_timeline'', str ''get_resolver_metrics'']"


section \<open>Stage 1: result-count limiting\<close>

lemma stored_map_values:
  "stored (map (\<lambda>(key, v). (key, f key v)) kvs) = map (\<lambda>(key, v). (key, f key v)) (stored kvs)"
  by (induction kvs) (auto simp: stored_def)

lemma stored_keys: "(key, v) \<in> set (stored kvs) \<longleftrightarrow> (key, v) \<in> set kvs \<and> key \<noteq> str ''__proto__''"
  by (auto simp: stored_def)



lemma wrapper_stored:
  "stored [(str ''results'', a), (str ''total_available'', b), (str ''returned'', c),
           (str ''truncated'', d), (str ''message'', e)]
   = [(str ''results'', a), (str ''total_available'', b), (str ''returned'', c),
      (str ''truncated'', d), (str ''message'', e)]"
  by (simp add: stored_def str_def)

lemma str_keys_distinct:
  "str ''results'' \<noteq> str ''total_available''"
  "str ''results'' \<noteq> str ''returned''"
  "str ''results'' \<noteq> str ''truncated''"
  "str ''total_available'' \<noteq> str ''returned''"
  "str ''total_available'' \<noteq> str ''truncated''"
  "str ''returned'' \<noteq> str ''truncated''"
  by (simp_all add: str_def)

text \<open>
  What stage 1 does at the top level and one level below it. A sequence at the top is
  limited and its elements are taken as they are. In an object at the top every entry
  that the copying loop stores keeps its key; a value that is a sequence is limited in
  the same way and any other value is taken as it is. So a sequence inside a sequence,
  or inside an object inside an object, is not limited, however long it is.
\<close>

lemma stage1_wrapper:
  assumes "0 \<le> lim" and "lim < int (length xs)"
  shows "limitResults lim (JArr xs) =
           JObj [(str ''results'', JArr (take (nat lim) xs)),
                 (str ''total_available'', JNum (int (length xs))),
                 (str ''returned'', JNum lim),
                 (str ''truncated'', JBool True),
                 (str ''message'', JStr (limit_message lim (length xs)))]"
proof -
  have len: "int (length (take (nat lim) xs)) = lim"
    using assms by simp
  have sl: "slice0 lim xs = take (nat lim) xs"
    using assms by (simp add: slice0_def)
  show ?thesis
    using assms(2) len by (simp add: sl Let_def)
qed

lemma wrapper_fields:
  "field ''results'' (JObj [(str ''results'', a), (str ''total_available'', b),
      (str ''returned'', c), (str ''truncated'', d), (str ''message'', e)]) = Some a"
  "field ''total_available'' (JObj [(str ''results'', a), (str ''total_available'', b),
      (str ''returned'', c), (str ''truncated'', d), (str ''message'', e)]) = Some b"
  "field ''returned'' (JObj [(str ''results'', a), (str ''total_available'', b),
      (str ''returned'', c), (str ''truncated'', d), (str ''message'', e)]) = Some c"
  "field ''truncated'' (JObj [(str ''results'', a), (str ''total_available'', b),
      (str ''returned'', c), (str ''truncated'', d), (str ''message'', e)]) = Some d"
  unfolding field_def using str_keys_distinct by simp_all

lemma limitResults_top_level:
  "limitResults lim (JArr xs) =
     (if lim < int (length xs) then
        JObj [(str ''results'', JArr (slice0 lim xs)),
              (str ''total_available'', JNum (int (length xs))),
              (str ''returned'', JNum (int (length (slice0 lim xs)))),
              (str ''truncated'', JBool True),
              (str ''message'', JStr (limit_message lim (length xs)))]
      else JArr (slice0 lim xs))"
  by (simp add: Let_def)

lemma limitResults_entries:
  "limitResults lim (JObj kvs) =
     JObj (map (\<lambda>(key, v). (key, if isArray v then limitResults lim v else v)) (stored kvs))"
  by (simp add: stored_map_values)

lemma limitResults_nested:
  "1 \<le> lim \<Longrightarrow> limitResults lim (JArr [JArr ys]) = JArr [JArr ys]"
  "k \<noteq> str ''__proto__'' \<Longrightarrow>
     limitResults lim (JObj [(k, JObj [(k', JArr ys)])]) = JObj [(k, JObj [(k', JArr ys)])]"
  "1 \<le> lim \<Longrightarrow> k \<noteq> str ''__proto__'' \<Longrightarrow>
     limitResults lim (JObj [(k, JArr [JArr ys])]) = JObj [(k, JArr [JArr ys])]"
  by (simp_all add: slice0_def Let_def isArray_def stored_def)

text \<open>
  C7. Stage 1 walks one level: it limits a sequence that is the top-level value or a
  direct value of the top-level object and no sequence below. The loop over the entries
  of the top-level object assigns each of them to a fresh object, and the assignment
  under the key \<open>__proto__\<close> stores nothing. With a limit of 2, the sequence of three
  numbers under the key \<open>b\<close> is limited; the same sequence under the key \<open>__proto__\<close>
  is missing from the result.
\<close>

theorem limitResults_proto_entry:
  "limitResults 2 (JObj [(str ''__proto__'', JArr [JNum 1, JNum 2, JNum 3]), (str ''a'', JNum 1)])
     = JObj [(str ''a'', JNum 1)]
   \<and> limitResults 2 (JObj [(str ''b'', JArr [JNum 1, JNum 2, JNum 3]), (str ''a'', JNum 1)])
     = JObj [(str ''b'',
               JObj [(str ''results'', JArr [JNum 1, JNum 2]),
                     (str ''total_available'', JNum 3),
                     (str ''returned'', JNum 2),
                     (str ''truncated'', JBool True),
                     (str ''message'', JStr (limit_message 2 3))]),
             (str ''a'', JNum 1)]"
proof -
  have W: "limitResults 2 (JArr [JNum 1, JNum 2, JNum 3]) =
      JObj [(str ''results'', JArr [JNum 1, JNum 2]),
            (str ''total_available'', JNum 3),
            (str ''returned'', JNum 2),
            (str ''truncated'', JBool True),
            (str ''message'', JStr (limit_message 2 3))]"
    by (simp add: slice0_def Let_def numeral_3_eq_3)
  have s1: "\<And>v w. stored [(str ''__proto__'', v), (str ''a'', w)] = [(str ''a'', w)]"
    by (simp add: stored_def str_def)
  have s2: "\<And>v w. stored [(str ''b'', v), (str ''a'', w)] = [(str ''b'', v), (str ''a'', w)]"
    by (simp add: stored_def str_def)
  show ?thesis
    unfolding limitResults.simps(2) using W
    by (simp add: isArray_def s1 s2 del: limitResults.simps)
qed


section \<open>Stage 2: string truncation\<close>


text \<open>
  C6, as the code has it. With truncation enabled, a string longer than 1000 units comes
  out as its first 1000 units followed by the marker \<open>... [truncated]\<close> of 15 units: the
  output has exactly 1000 units plus the marker, 1015 in all.
\<close>

theorem truncateString_long:
  assumes "truncationOn cfg" and "length s > 1000"
  shows "truncateString cfg s MAX_STRING_LENGTH = take 1000 s @ str ''... [truncated]''
       \<and> length (truncateString cfg s MAX_STRING_LENGTH) = 1000 + length (str ''... [truncated]'')
       \<and> length (truncateString cfg s MAX_STRING_LENGTH) = 1015
       \<and> prefix (take 1000 s) s \<and> length (take 1000 s) = 1000"
  using assms by (simp add: truncateString_def MAX_STRING_LENGTH_def str_def take_is_prefix)

theorem truncateString_long_witness:
  "truncateString default_config (replicate 1001 0x61) MAX_STRING_LENGTH
     = replicate 1000 0x61 @ str ''... [truncated]''
   \<and> length (truncateString default_config (replicate 1001 0x61) MAX_STRING_LENGTH) = 1015"
proof -
  have on: "truncationOn default_config"
    by (simp add: truncationOn_def default_config_def)
  have len: "length (replicate 1001 (0x61 :: unit16)) > 1000"
    by simp
  show ?thesis
    using truncateString_long [OF on len] by simp
qed

text \<open>
  The claim's count, 1001 units plus the marker, is one more than the code produces: on a
  string of 1001 units the output has 1015 units, not 1016.
\<close>

theorem truncateString_length_counterexample:
  "length (truncateString default_config (replicate 1001 0x61) MAX_STRING_LENGTH) = 1015
   \<and> 1015 \<noteq> 1001 + length (str ''... [truncated]'')"
  by (simp add: truncateString_def MAX_STRING_LENGTH_def str_def truncationOn_def
      default_config_def)


lemma truncateString_idem:
  "truncateString cfg (truncateString cfg s MAX_STRING_LENGTH) MAX_STRING_LENGTH
     = truncateString cfg s MAX_STRING_LENGTH"
  by (simp add: truncateString_def MAX_STRING_LENGTH_def)

lemma truncateObject_idem: "truncateObject cfg (truncateObject cfg v) = truncateObject cfg v"
proof (induction cfg v rule: truncateObject.induct)
  case (1 cfg s)
  then show ?case by (simp add: truncateString_idem)
next
  case (2 cfg xs)
  then show ?case by simp
next
  case (3 cfg kvs)
  show ?case
  proof (cases "truncationOn cfg")
    case False
    then show ?thesis by simp
  next
    case True
    have IH: "\<forall>(key, v) \<in> set (stored kvs).
                truncateObject cfg (truncateObject cfg v) = truncateObject cfg v"
      using "3.IH" True by (auto simp: stored_keys)
    have "stored (map (\<lambda>(key, v). (key, truncateObject cfg v))
            (stored (map (\<lambda>(key, v). (key, truncateObject cfg v)) kvs)))
          = map (\<lambda>(key, v). (key, truncateObject cfg v))
              (map (\<lambda>(key, v). (key, truncateObject cfg v)) (stored (stored kvs)))"
      by (simp only: stored_map_values)
    also have "\<dots> = map (\<lambda>(key, v). (key, truncateObject cfg v))
              (map (\<lambda>(key, v). (key, truncateObject cfg v)) (stored kvs))"
      by (simp add: stored_def)
    also have "\<dots> = map (\<lambda>(key, v). (key, truncateObject cfg v)) (stored kvs)"
      using IH by (auto simp: case_prod_beta)
    also have "\<dots> = stored (map (\<lambda>(key, v). (key, truncateObject cfg v)) kvs)"
      by (simp only: stored_map_values)
    finally show ?thesis using True by simp
  qed
qed simp_all

lemma truncateObject_off: "\<not> truncationOn cfg \<Longrightarrow> truncateObject cfg v = v"
  by (cases v) simp_all

lemma truncateObject_wrapper:
  "truncateObject cfg
     (JObj [(str ''results'', JArr zs), (str ''total_available'', JNum n),
            (str ''returned'', JNum m), (str ''truncated'', JBool t), (str ''message'', JStr msg)])
   = JObj [(str ''results'', truncateObject cfg (JArr zs)), (str ''total_available'', JNum n),
           (str ''returned'', JNum m), (str ''truncated'', JBool t),
           (str ''message'', truncateObject cfg (JStr msg))]"
proof (cases "truncationOn cfg")
  case False
  then show ?thesis by (simp add: truncateObject_off)
next
  case True
  then show ?thesis
    unfolding truncateObject.simps(3)
    by (simp add: wrapper_stored del: truncateObject.simps(1,2))
qed






section \<open>Fixed points of stage 1\<close>






section \<open>Stage 3: total-size enforcement\<close>

lemma enforce_fits:
  assumes "int (length (JSON_stringify q)) \<le> or_default (maxResponseSize cfg) DEFAULT_MAX_RESPONSE_SIZE"
  shows "enforceResponseSize cfg q = q"
  using assms by (simp add: enforceResponseSize_def Let_def)

lemma enforce_nonarray:
  assumes "\<not> isArray q" and "truncateObject cfg q = q"
  shows "enforceResponseSize cfg q = q"
  using assms by (cases q) (simp_all add: enforceResponseSize_def Let_def isArray_def)

lemma enforce_array_over:
  assumes "or_default (maxResponseSize cfg) DEFAULT_MAX_RESPONSE_SIZE
             < int (length (JSON_stringify (JArr xs)))"
  shows "enforceResponseSize cfg (JArr xs) =
     JObj [(str ''results'',
              JArr (slice0 (max 1 (maxItems (or_default (maxResponseSize cfg) DEFAULT_MAX_RESPONSE_SIZE)
                                    (length (JSON_stringify (JArr xs))) (length xs))) xs)),
           (str ''total_available'', JNum (int (length xs))),
           (str ''returned'',
              JNum (max 1 (maxItems (or_default (maxResponseSize cfg) DEFAULT_MAX_RESPONSE_SIZE)
                             (length (JSON_stringify (JArr xs))) (length xs)))),
           (str ''truncated'', JBool True),
           (str ''message'',
              JStr (size_message
                      (max 1 (maxItems (or_default (maxResponseSize cfg) DEFAULT_MAX_RESPONSE_SIZE)
                                (length (JSON_stringify (JArr xs))) (length xs)))
                      (length xs)))]"
  using assms by (simp add: enforceResponseSize_def Let_def)







subsection \<open>Serialised lengths\<close>

lemma escape_unit_plain: "plain_unit u \<Longrightarrow> escape_unit u = [u]"
  by (auto simp: plain_unit_def escape_unit_def)

lemma plain_not_surrogate:
  "plain_unit u \<Longrightarrow> \<not> is_high_surrogate u \<and> \<not> is_low_surrogate u"
  by (auto simp: plain_unit_def is_high_surrogate_def is_low_surrogate_def
      word_le_nat_alt word_less_nat_alt)

lemma quote_units_plain: "\<forall>u \<in> set s. plain_unit u \<Longrightarrow> quote_units s = s"
  by (induction s rule: quote_units.induct)
     (simp_all add: escape_unit_plain plain_not_surrogate)

lemma QuoteJSONString_plain_length:
  "\<forall>u \<in> set s. plain_unit u \<Longrightarrow> length (QuoteJSONString s) = length s + 2"
  by (simp add: QuoteJSONString_def quote_units_plain)

lemma length_join:
  "length (join sep xs) = sum_list (map length xs) + (length xs - 1) * length sep"
  by (induction sep xs rule: join.induct) simp_all

lemma stringify_array_length:
  assumes "xs \<noteq> []"
  shows "length (JSON_stringify (JArr xs)) =
           sum_list (map (\<lambda>x. length (JSON_stringify x)) xs) + (length xs - 1) + 2"
  using assms by (simp add: JSON_stringify_def length_join str_def comp_def)

text \<open>
  Every value serialises to at least one unit, so the \<open>itemSize\<close> of a non-empty
  sequence is positive.
\<close>

lemma show_nat_nonempty: "show_nat n \<noteq> []"
  by (subst show_nat.simps) simp

lemma serialize_nonempty: "serialize [] [] v \<noteq> []"
  by (cases v) (simp_all add: str_def show_int_def show_nat_nonempty QuoteJSONString_def)

lemma sum_list_ge_length:
  assumes "\<forall>x \<in> set xs. 1 \<le> f x"
  shows "length xs \<le> sum_list (map f xs)"
  using assms by (induction xs) auto

lemma itemSize_positive:
  assumes "xs \<noteq> []"
  shows "0 < length (JSON_stringify (JArr xs)) div length xs"
proof -
  have "\<forall>x \<in> set xs. 1 \<le> length (JSON_stringify x)"
    using serialize_nonempty by (simp add: JSON_stringify_def Suc_le_eq)
  then have "length xs \<le> sum_list (map (\<lambda>x. length (JSON_stringify x)) xs)"
    by (rule sum_list_ge_length)
  then have "length xs \<le> length (JSON_stringify (JArr xs))"
    using stringify_array_length [OF assms] by simp
  then show ?thesis
    using assms by (simp add: div_greater_zero_iff)
qed

lemma plain_a: "plain_unit 0x61"
  by (simp add: plain_unit_def)

lemma stringify_a_string: "length (JSON_stringify (JStr (replicate n 0x61))) = n + 2"
  using plain_a by (simp add: JSON_stringify_def QuoteJSONString_plain_length)

lemma stringify_a_array:
  assumes "0 < k"
  shows "length (JSON_stringify (JArr (replicate k (JStr (replicate n 0x61))))) = k * (n + 2) + (k - 1) + 2"
  using assms by (simp add: stringify_array_length stringify_a_string sum_list_replicate)

lemma serialize_a_array:
  assumes "0 < k"
  shows "length (serialize [] [] (JArr (replicate k (JStr (replicate n 0x61))))) = k * (n + 2) + (k - 1) + 2"
  using stringify_a_array [OF assms] by (simp only: JSON_stringify_def)

subsection \<open>Two responses under the default limits\<close>

text \<open>
  Fifty-one strings of 1000 units each: stage 1 wraps the first fifty, and the wrapper
  serialises to 50322 units. Fifty such strings: stage 1 and stage 2 leave the sequence
  alone, it serialises to 50151 units, and stage 3 keeps 39 of them.
\<close>

lemma big_stage1: "limitResults 50 (JArr (replicate 51 (JStr (replicate 1000 0x61)))) =
   JObj [(str ''results'', JArr (replicate 50 (JStr (replicate 1000 0x61)))),
              (str ''total_available'', JNum 51),
              (str ''returned'', JNum 50),
              (str ''truncated'', JBool True),
              (str ''message'', JStr (limit_message 50 51))]"
  by (simp add: slice0_def Let_def)

lemma limit_message_50_51: "limit_message 50 51 = str ''Results limited to 50 items out of 51 total. Use pagination parameters to access more results.''"
  by (simp add: limit_message_def show_int_def show_nat.simps str_def)

lemma big_wrapper_length:
  "length (JSON_stringify
     (JObj [(str ''results'', JArr (replicate 50 (JStr (replicate 1000 0x61)))),
            (str ''total_available'', JNum 51),
            (str ''returned'', JNum 50),
            (str ''truncated'', JBool True),
            (str ''message'', JStr (limit_message 50 51))])) = 50322"
  by (simp add: JSON_stringify_def serialize_a_array limit_message_50_51 QuoteJSONString_def
      str_def show_int_def show_nat.simps is_high_surrogate_def is_low_surrogate_def
      escape_unit_def del: serialize.simps(5))

lemma big_wrapper_truncate:
  "truncateObject default_config
     (JObj [(str ''results'', JArr (replicate 50 (JStr (replicate 1000 0x61)))),
            (str ''total_available'', JNum 51),
            (str ''returned'', JNum 50),
            (str ''truncated'', JBool True),
            (str ''message'', JStr (limit_message 50 51))])
   = JObj [(str ''results'', JArr (replicate 50 (JStr (replicate 1000 0x61)))),
            (str ''total_available'', JNum 51),
            (str ''returned'', JNum 50),
            (str ''truncated'', JBool True),
            (str ''message'', JStr (limit_message 50 51))]"
proof -
  have msg: "truncateObject default_config (JStr (limit_message 50 51)) = JStr (limit_message 50 51)"
    by (simp add: truncateString_def MAX_STRING_LENGTH_def limit_message_50_51 str_def)
  have res: "truncateObject default_config (JArr (replicate 50 (JStr (replicate 1000 0x61))))
             = JArr (replicate 50 (JStr (replicate 1000 0x61)))"
    by (simp add: truncateString_def MAX_STRING_LENGTH_def)
  show ?thesis
    unfolding truncateObject.simps(3) using msg res
    by (simp add: wrapper_stored del: truncateObject.simps(1,2))
qed

lemma fifty_strings_enforced:
  assumes "or_default (maxResponseSize cfg) DEFAULT_MAX_RESPONSE_SIZE = 50000"
  shows "enforceResponseSize cfg (JArr (replicate 50 (JStr (replicate 1000 0x61)))) =
      JObj [(str ''results'', JArr (replicate 39 (JStr (replicate 1000 0x61)))),
            (str ''total_available'', JNum 50),
            (str ''returned'', JNum 39),
            (str ''truncated'', JBool True),
            (str ''message'', JStr (size_message 39 50))]"
proof -
  have len: "length (JSON_stringify (JArr (replicate 50 (JStr (replicate 1000 0x61))))) = 50151"
    by (simp add: stringify_a_array)
  have mi: "max 1 (maxItems 50000 50151 50) = 39"
    by (simp add: maxItems_def)
  show ?thesis
    using enforce_array_over [of cfg "replicate 50 (JStr (replicate 1000 0x61))"]
    unfolding assms len by (simp add: mi slice0_def)
qed

lemma fifty_strings_default:
  "processResponse default_config (JArr (replicate 50 (JStr (replicate 1000 0x61)))) =
      JObj [(str ''results'', JArr (replicate 39 (JStr (replicate 1000 0x61)))),
            (str ''total_available'', JNum 50),
            (str ''returned'', JNum 39),
            (str ''truncated'', JBool True),
            (str ''message'', JStr (size_message 39 50))]"
proof -
  have on: "truncationOn default_config"
    by (simp add: truncationOn_def default_config_def)
  have lim: "or_default (maxResults default_config) DEFAULT_MAX_RESULTS = 50"
    by (simp add: or_default_def default_config_def)
  have sz: "or_default (maxResponseSize default_config) DEFAULT_MAX_RESPONSE_SIZE = 50000"
    by (simp add: or_default_def default_config_def)
  have L: "limitResults 50 (JArr (replicate 50 (JStr (replicate 1000 0x61))))
           = JArr (replicate 50 (JStr (replicate 1000 0x61)))"
    by (simp add: slice0_def Let_def)
  have T: "truncateObject default_config (JArr (replicate 50 (JStr (replicate 1000 0x61))))
           = JArr (replicate 50 (JStr (replicate 1000 0x61)))"
    by (simp add: on truncateString_def MAX_STRING_LENGTH_def)
  show ?thesis
    unfolding processResponse_def lim Let_def L T by (rule fifty_strings_enforced [OF sz])
qed

text \<open>
  Twenty-five sequences of four such strings followed by twenty-five times the number 1:
  fifty elements, 100401 units; stage 3 keeps the first nineteen, 76411 units in the
  wrapper. And one string of 1001 units in a sequence: stage 2 shortens it.
\<close>

lemma stringify_replicate:
  assumes "0 < k"
  shows "length (JSON_stringify (JArr (replicate k v))) = k * length (JSON_stringify v) + (k - 1) + 2"
  using assms by (simp add: stringify_array_length sum_list_replicate)

lemma four_strings_length:
  "length (JSON_stringify (JArr (replicate 4 (JStr (replicate 1000 0x61))))) = 4013"
  by (simp add: stringify_a_array)

lemma one_length: "length (JSON_stringify (JNum 1)) = 1"
  by (simp add: JSON_stringify_def show_int_def show_nat.simps)

lemma mixed_length:
  "length (JSON_stringify
     (JArr (replicate 25 (JArr (replicate 4 (JStr (replicate 1000 0x61)))) @ replicate 25 (JNum 1))))
   = 100401"
  by (simp add: stringify_array_length four_strings_length one_length sum_list_replicate)

lemma mixed_stage1:
  "limitResults 50
     (JArr (replicate 25 (JArr (replicate 4 (JStr (replicate 1000 0x61)))) @ replicate 25 (JNum 1)))
   = JArr (replicate 25 (JArr (replicate 4 (JStr (replicate 1000 0x61)))) @ replicate 25 (JNum 1))"
  by (simp add: slice0_def Let_def)

lemma mixed_stage2:
  "truncateObject default_config
     (JArr (replicate 25 (JArr (replicate 4 (JStr (replicate 1000 0x61)))) @ replicate 25 (JNum 1)))
   = JArr (replicate 25 (JArr (replicate 4 (JStr (replicate 1000 0x61)))) @ replicate 25 (JNum 1))"
  by (simp add: truncationOn_def default_config_def truncateString_def MAX_STRING_LENGTH_def)

lemma mixed_default:
  "processResponse default_config
     (JArr (replicate 25 (JArr (replicate 4 (JStr (replicate 1000 0x61)))) @ replicate 25 (JNum 1)))
   = JObj [(str ''results'', JArr (replicate 19 (JArr (replicate 4 (JStr (replicate 1000 0x61)))))),
           (str ''total_available'', JNum 50),
           (str ''returned'', JNum 19),
           (str ''truncated'', JBool True),
           (str ''message'', JStr (size_message 19 50))]"
proof -
  let ?d = "JArr (replicate 25 (JArr (replicate 4 (JStr (replicate 1000 0x61)))) @ replicate 25 (JNum 1))"
  have lim: "or_default (maxResults default_config) DEFAULT_MAX_RESULTS = 50"
    by (simp add: or_default_def default_config_def)
  have sz: "or_default (maxResponseSize default_config) DEFAULT_MAX_RESPONSE_SIZE = 50000"
    by (simp add: or_default_def default_config_def)
  have mi: "max 1 (maxItems 50000 100401 50) = 19"
    by (simp add: maxItems_def)
  have E: "enforceResponseSize default_config ?d =
      JObj [(str ''results'', JArr (replicate 19 (JArr (replicate 4 (JStr (replicate 1000 0x61)))))),
           (str ''total_available'', JNum 50),
           (str ''returned'', JNum 19),
           (str ''truncated'', JBool True),
           (str ''message'', JStr (size_message 19 50))]"
    using enforce_array_over [of default_config
        "replicate 25 (JArr (replicate 4 (JStr (replicate 1000 0x61)))) @ replicate 25 (JNum 1)"]
    unfolding sz mixed_length by (simp add: mi slice0_def)
  show ?thesis
    unfolding processResponse_def lim Let_def mixed_stage1 mixed_stage2 by (rule E)
qed

lemma size_message_19_50:
  "size_message 19 50 = str ''Response truncated due to size constraints. Showing 19 of 50 items.''"
  by (simp add: size_message_def show_int_def show_nat.simps str_def)

lemma serialize_nineteen:
  "length (serialize [] [] (JArr (replicate 19 (JArr (replicate 4 (JStr (replicate 1000 0x61))))))) = 76267"
proof -
  have "length (JSON_stringify (JArr (replicate 19 (JArr (replicate 4 (JStr (replicate 1000 0x61))))))) = 76267"
    using stringify_replicate [of 19 "JArr (replicate 4 (JStr (replicate 1000 0x61)))"]
    by (simp add: four_strings_length)
  then show ?thesis by (simp only: JSON_stringify_def)
qed

lemma mixed_wrapper_length:
  "length (JSON_stringify
     (JObj [(str ''results'', JArr (replicate 19 (JArr (replicate 4 (JStr (replicate 1000 0x61)))))),
           (str ''total_available'', JNum 50),
           (str ''returned'', JNum 19),
           (str ''truncated'', JBool True),
           (str ''message'', JStr (size_message 19 50))])) = 76411"
  by (simp add: JSON_stringify_def serialize_nineteen size_message_19_50 QuoteJSONString_def
      str_def show_int_def show_nat.simps is_high_surrogate_def is_low_surrogate_def
      escape_unit_def del: serialize.simps(5))

lemma truncated_string_default:
  "processResponse default_config (JArr [JStr (replicate 1001 0x61)])
   = JArr [JStr (replicate 1000 0x61 @ str ''... [truncated]'')]"
proof -
  have lim: "or_default (maxResults default_config) DEFAULT_MAX_RESULTS = 50"
    by (simp add: or_default_def default_config_def)
  have L: "limitResults 50 (JArr [JStr (replicate 1001 0x61)]) = JArr [JStr (replicate 1001 0x61)]"
    by (simp add: slice0_def Let_def)
  have T: "truncateObject default_config (JArr [JStr (replicate 1001 0x61)])
           = JArr [JStr (replicate 1000 0x61 @ str ''... [truncated]'')]"
    by (simp add: truncationOn_def default_config_def truncateString_def MAX_STRING_LENGTH_def)
  have pl: "\<forall>u \<in> set (replicate 1000 0x61 @ str ''... [truncated]''). plain_unit u"
    by (simp add: str_def plain_unit_def)
  have "length (JSON_stringify (JArr [JStr (replicate 1000 0x61 @ str ''... [truncated]'')])) = 1019"
    using QuoteJSONString_plain_length [OF pl]
    by (simp add: JSON_stringify_def str_def)
  then have "int (length (JSON_stringify (JArr [JStr (replicate 1000 0x61 @ str ''... [truncated]'')])))
        \<le> or_default (maxResponseSize default_config) DEFAULT_MAX_RESPONSE_SIZE"
    by (simp add: or_default_def default_config_def)
  then have E: "enforceResponseSize default_config (JArr [JStr (replicate 1000 0x61 @ str ''... [truncated]'')])
        = JArr [JStr (replicate 1000 0x61 @ str ''... [truncated]'')]"
    by (rule enforce_fits)
  show ?thesis
    unfolding processResponse_def lim Let_def L T by (rule E)
qed

lemma cut_string_differs:
  "JStr (replicate 1000 0x61 @ str ''... [truncated]'') \<noteq> JStr (replicate 1001 0x61)"
proof
  assume "JStr (replicate 1000 0x61 @ str ''... [truncated]'') = JStr (replicate 1001 0x61)"
  then have "replicate 1000 (0x61 :: unit16) @ str ''... [truncated]'' = replicate 1001 0x61"
    by simp
  then have "length (replicate 1000 (0x61 :: unit16) @ str ''... [truncated]'')
             = length (replicate 1001 (0x61 :: unit16))"
    by (rule arg_cong)
  then show False by (simp add: str_def)
qed

lemma long_first_default:
  "processResponse default_config (JArr (JStr (replicate 1001 0x61) # replicate 50 (JNum 1))) =
     JObj [(str ''results'',
              JArr (JStr (replicate 1000 0x61 @ str ''... [truncated]'') # replicate 49 (JNum 1))),
           (str ''total_available'', JNum 51),
           (str ''returned'', JNum 50),
           (str ''truncated'', JBool True),
           (str ''message'', JStr (limit_message 50 51))]"
proof -
  let ?xs = "JStr (replicate 1001 0x61) # replicate 50 (JNum 1)"
  have on: "truncationOn default_config"
    by (simp add: truncationOn_def default_config_def)
  have lim: "or_default (maxResults default_config) DEFAULT_MAX_RESULTS = 50"
    by (simp add: or_default_def default_config_def)
  have a: "(0::int) \<le> 50" by simp
  have b: "(50::int) < int (length ?xs)" by simp
  have W: "limitResults 50 (JArr ?xs) =
      JObj [(str ''results'', JArr (JStr (replicate 1001 0x61) # replicate 49 (JNum 1))),
            (str ''total_available'', JNum 51),
            (str ''returned'', JNum 50),
            (str ''truncated'', JBool True),
            (str ''message'', JStr (limit_message 50 51))]"
    using stage1_wrapper [OF a b] by simp
  have res: "truncateObject default_config (JArr (JStr (replicate 1001 0x61) # replicate 49 (JNum 1)))
             = JArr (JStr (replicate 1000 0x61 @ str ''... [truncated]'') # replicate 49 (JNum 1))"
    by (simp add: on truncateString_def MAX_STRING_LENGTH_def)
  have msg: "truncateObject default_config (JStr (limit_message 50 51)) = JStr (limit_message 50 51)"
    by (simp add: truncateString_def MAX_STRING_LENGTH_def limit_message_50_51 str_def)
  have T: "truncateObject default_config (limitResults 50 (JArr ?xs)) =
      JObj [(str ''results'',
              JArr (JStr (replicate 1000 0x61 @ str ''... [truncated]'') # replicate 49 (JNum 1))),
           (str ''total_available'', JNum 51),
           (str ''returned'', JNum 50),
           (str ''truncated'', JBool True),
           (str ''message'', JStr (limit_message 50 51))]"
    unfolding W truncateObject_wrapper res msg ..
  have "enforceResponseSize default_config (truncateObject default_config (limitResults 50 (JArr ?xs)))
        = truncateObject default_config (limitResults 50 (JArr ?xs))"
  proof (rule enforce_nonarray)
    show "\<not> isArray (truncateObject default_config (limitResults 50 (JArr ?xs)))"
      unfolding T by (simp add: isArray_def)
    show "truncateObject default_config (truncateObject default_config (limitResults 50 (JArr ?xs)))
          = truncateObject default_config (limitResults 50 (JArr ?xs))"
      by (rule truncateObject_idem)
  qed
  then have "processResponse default_config (JArr ?xs)
             = truncateObject default_config (limitResults 50 (JArr ?xs))"
    unfolding processResponse_def Let_def lim .
  then show ?thesis
    unfolding T .
qed

text \<open>
  C4, as the code has it. For a sequence longer than the limit, the limit being a count
  and so not negative, stage 1 returns the wrapper: \<open>returned\<close> is the limit,
  \<open>total_available\<close> the length of the sequence, \<open>truncated\<close> is true and \<open>results\<close>
  holds the first elements of the input, as many as the limit, in their order. The
  pipeline then applies stage 2 to the wrapper; when the outcome serialises within
  \<open>maxResponseSize\<close> it is what the pipeline returns: the three fields are as before,
  and \<open>results\<close> holds what stage 2 makes of those first elements.
\<close>

theorem limitResults_wrapper:
  assumes "0 \<le> lim" and "lim < int (length xs)"
  shows "limitResults lim (JArr xs) =
           JObj [(str ''results'', JArr (take (nat lim) xs)),
                 (str ''total_available'', JNum (int (length xs))),
                 (str ''returned'', JNum lim),
                 (str ''truncated'', JBool True),
                 (str ''message'', JStr (limit_message lim (length xs)))]
       \<and> field ''returned'' (limitResults lim (JArr xs)) = Some (JNum lim)
       \<and> field ''total_available'' (limitResults lim (JArr xs)) = Some (JNum (int (length xs)))
       \<and> field ''truncated'' (limitResults lim (JArr xs)) = Some (JBool True)
       \<and> field ''results'' (limitResults lim (JArr xs)) = Some (JArr (take (nat lim) xs))
       \<and> (or_default (maxResults cfg) DEFAULT_MAX_RESULTS = lim
            \<and> int (length (JSON_stringify (truncateObject cfg (limitResults lim (JArr xs)))))
                \<le> or_default (maxResponseSize cfg) DEFAULT_MAX_RESPONSE_SIZE
          \<longrightarrow> processResponse cfg (JArr xs) = truncateObject cfg (limitResults lim (JArr xs))
              \<and> field ''returned'' (processResponse cfg (JArr xs)) = Some (JNum lim)
              \<and> field ''total_available'' (processResponse cfg (JArr xs))
                  = Some (JNum (int (length xs)))
              \<and> field ''truncated'' (processResponse cfg (JArr xs)) = Some (JBool True)
              \<and> field ''results'' (processResponse cfg (JArr xs))
                  = Some (truncateObject cfg (JArr (take (nat lim) xs))))"
proof -
  note eq = stage1_wrapper [OF assms]
  have stage1: "field ''returned'' (limitResults lim (JArr xs)) = Some (JNum lim)
       \<and> field ''total_available'' (limitResults lim (JArr xs)) = Some (JNum (int (length xs)))
       \<and> field ''truncated'' (limitResults lim (JArr xs)) = Some (JBool True)
       \<and> field ''results'' (limitResults lim (JArr xs)) = Some (JArr (take (nat lim) xs))"
    unfolding eq by (simp only: wrapper_fields simp_thms)
  have T: "truncateObject cfg (limitResults lim (JArr xs)) =
      JObj [(str ''results'', truncateObject cfg (JArr (take (nat lim) xs))),
            (str ''total_available'', JNum (int (length xs))),
            (str ''returned'', JNum lim),
            (str ''truncated'', JBool True),
            (str ''message'', truncateObject cfg (JStr (limit_message lim (length xs))))]"
    unfolding eq by (rule truncateObject_wrapper)
  have pipeline: "processResponse cfg (JArr xs) = truncateObject cfg (limitResults lim (JArr xs))
              \<and> field ''returned'' (processResponse cfg (JArr xs)) = Some (JNum lim)
              \<and> field ''total_available'' (processResponse cfg (JArr xs))
                  = Some (JNum (int (length xs)))
              \<and> field ''truncated'' (processResponse cfg (JArr xs)) = Some (JBool True)
              \<and> field ''results'' (processResponse cfg (JArr xs))
                  = Some (truncateObject cfg (JArr (take (nat lim) xs)))"
    if l: "or_default (maxResults cfg) DEFAULT_MAX_RESULTS = lim"
      and fit: "int (length (JSON_stringify (truncateObject cfg (limitResults lim (JArr xs)))))
                \<le> or_default (maxResponseSize cfg) DEFAULT_MAX_RESPONSE_SIZE"
  proof -
    have pr: "processResponse cfg (JArr xs) = truncateObject cfg (limitResults lim (JArr xs))"
      unfolding processResponse_def Let_def l using fit by (rule enforce_fits)
    show ?thesis
      unfolding pr unfolding T by (simp only: wrapper_fields simp_thms)
  qed
  from eq stage1 pipeline show ?thesis by blast
qed

theorem limitResults_wrapper_witness:
  "field ''returned'' (limitResults 2 (JArr [JNum 10, JNum 20, JNum 30])) = Some (JNum 2)
   \<and> field ''total_available'' (limitResults 2 (JArr [JNum 10, JNum 20, JNum 30])) = Some (JNum 3)
   \<and> field ''truncated'' (limitResults 2 (JArr [JNum 10, JNum 20, JNum 30])) = Some (JBool True)
   \<and> field ''results'' (limitResults 2 (JArr [JNum 10, JNum 20, JNum 30]))
       = Some (JArr [JNum 10, JNum 20])
   \<and> field ''returned'' (processResponse two_results_config (JArr [JNum 10, JNum 20, JNum 30]))
       = Some (JNum 2)
   \<and> field ''results'' (processResponse two_results_config (JArr [JNum 10, JNum 20, JNum 30]))
       = Some (truncateObject two_results_config (JArr [JNum 10, JNum 20]))"
proof -
  have a: "(0::int) \<le> 2" by simp
  have b: "(2::int) < int (length [JNum 10, JNum 20, JNum 30])" by simp
  have t: "take (nat 2) [JNum 10, JNum 20, JNum 30] = [JNum 10, JNum 20]" by simp
  have l: "int (length [JNum 10, JNum 20, JNum 30]) = 3" by simp
  have l2: "length [JNum 10, JNum 20, JNum 30] = 3" by simp
  have c: "or_default (maxResults two_results_config) DEFAULT_MAX_RESULTS = 2"
    by (simp add: two_results_config_def or_default_def)
  have on: "truncationOn two_results_config"
    by (simp add: two_results_config_def truncationOn_def default_config_def)
  have W: "limitResults 2 (JArr [JNum 10, JNum 20, JNum 30]) =
      JObj [(str ''results'', JArr [JNum 10, JNum 20]),
            (str ''total_available'', JNum 3),
            (str ''returned'', JNum 2),
            (str ''truncated'', JBool True),
            (str ''message'', JStr (limit_message 2 3))]"
    using stage1_wrapper [OF a b] unfolding t l2 by (simp del: limitResults.simps)
  have m: "limit_message 2 3 = str ''Results limited to 2 items out of 3 total. Use pagination parameters to access more results.''"
    by (simp add: limit_message_def show_int_def show_nat.simps str_def)
  have TW: "truncateObject two_results_config (limitResults 2 (JArr [JNum 10, JNum 20, JNum 30])) =
      JObj [(str ''results'', JArr [JNum 10, JNum 20]),
            (str ''total_available'', JNum 3),
            (str ''returned'', JNum 2),
            (str ''truncated'', JBool True),
            (str ''message'', JStr (limit_message 2 3))]"
    unfolding W truncateObject_wrapper
    by (simp add: on m truncateString_def MAX_STRING_LENGTH_def str_def)
  have d: "int (length (JSON_stringify
             (truncateObject two_results_config (limitResults 2 (JArr [JNum 10, JNum 20, JNum 30])))))
           \<le> or_default (maxResponseSize two_results_config) DEFAULT_MAX_RESPONSE_SIZE"
    unfolding TW m
    by (simp add: JSON_stringify_def QuoteJSONString_def str_def show_int_def show_nat.simps
        or_default_def two_results_config_def default_config_def escape_unit_def
        is_high_surrogate_def is_low_surrogate_def)
  show ?thesis
    using limitResults_wrapper [OF a b, of two_results_config] c d unfolding t l by blast
qed

text \<open>
  Under the default limits, a string of 1001 units followed by fifty times the number 1:
  the pipeline returns the wrapper, and its first result is the string cut to 1000 units
  with the marker, not the first element of the input. And with a limit of -1 a sequence
  of three elements is wrapped with \<open>returned\<close> equal to 2.
\<close>

theorem shaper_wrapper_counterexample:
  "or_default (maxResults default_config) DEFAULT_MAX_RESULTS
     < int (length (JStr (replicate 1001 0x61) # replicate 50 (JNum 1)))
   \<and> take 50 (JStr (replicate 1001 0x61) # replicate 50 (JNum 1))
       = JStr (replicate 1001 0x61) # replicate 49 (JNum 1)
   \<and> field ''results''
        (processResponse default_config (JArr (JStr (replicate 1001 0x61) # replicate 50 (JNum 1))))
       = Some (JArr (JStr (replicate 1000 0x61 @ str ''... [truncated]'') # replicate 49 (JNum 1)))
   \<and> field ''results''
        (processResponse default_config (JArr (JStr (replicate 1001 0x61) # replicate 50 (JNum 1))))
       \<noteq> Some (JArr (take 50 (JStr (replicate 1001 0x61) # replicate 50 (JNum 1))))
   \<and> or_default (maxResults negative_results_config) DEFAULT_MAX_RESULTS = - 1
   \<and> field ''returned''
        (limitResults (or_default (maxResults negative_results_config) DEFAULT_MAX_RESULTS)
           (JArr [JNum 1, JNum 2, JNum 3]))
       = Some (JNum 2)"
proof -
  have lim: "or_default (maxResults default_config) DEFAULT_MAX_RESULTS = 50"
    by (simp add: or_default_def default_config_def)
  have neg: "or_default (maxResults negative_results_config) DEFAULT_MAX_RESULTS = - 1"
    by (simp add: or_default_def negative_results_config_def)
  have tk: "take 50 (JStr (replicate 1001 0x61) # replicate 50 (JNum 1))
       = JStr (replicate 1001 0x61) # replicate 49 (JNum 1)"
    by simp
  have W: "limitResults (- 1) (JArr [JNum 1, JNum 2, JNum 3]) =
      JObj [(str ''results'', JArr [JNum 1, JNum 2]),
            (str ''total_available'', JNum 3),
            (str ''returned'', JNum 2),
            (str ''truncated'', JBool True),
            (str ''message'', JStr (limit_message (- 1) 3))]"
    by (simp add: slice0_def Let_def numeral_3_eq_3)
  show ?thesis
    unfolding long_first_default lim neg tk W wrapper_fields
    using cut_string_differs by simp
qed

text \<open>
  C5, as the code has it. Stage 1 returns a sequence no longer than the limit unchanged.
  The whole pipeline returns it unchanged when the two later stages have nothing to do:
  stage 2 changes nothing in it (truncation is off, or no string in it is longer than
  1000 units) and it serialises within \<open>maxResponseSize\<close>.
\<close>

theorem limitResults_identity:
  assumes "int (length xs) \<le> lim"
  shows "limitResults lim (JArr xs) = JArr xs
       \<and> (or_default (maxResults cfg) DEFAULT_MAX_RESULTS = lim
            \<and> truncateObject cfg (JArr xs) = JArr xs
            \<and> int (length (JSON_stringify (JArr xs)))
                \<le> or_default (maxResponseSize cfg) DEFAULT_MAX_RESPONSE_SIZE
          \<longrightarrow> processResponse cfg (JArr xs) = JArr xs)"
proof -
  have L: "limitResults lim (JArr xs) = JArr xs"
    using assms by (simp add: slice0_def Let_def)
  have "processResponse cfg (JArr xs) = JArr xs"
    if "or_default (maxResults cfg) DEFAULT_MAX_RESULTS = lim"
      and "truncateObject cfg (JArr xs) = JArr xs"
      and "int (length (JSON_stringify (JArr xs)))
            \<le> or_default (maxResponseSize cfg) DEFAULT_MAX_RESPONSE_SIZE"
    unfolding processResponse_def Let_def that(1) L that(2) using that(3) by (rule enforce_fits)
  with L show ?thesis by blast
qed

theorem limitResults_identity_witness:
  "limitResults 50 (JArr [JArr [JNum 1], JStr (str ''x'')]) = JArr [JArr [JNum 1], JStr (str ''x'')]
   \<and> processResponse default_config (JArr [JArr [JNum 1], JStr (str ''x'')])
       = JArr [JArr [JNum 1], JStr (str ''x'')]"
proof -
  have a: "int (length [JArr [JNum 1], JStr (str ''x'')]) \<le> 50" by simp
  have b: "or_default (maxResults default_config) DEFAULT_MAX_RESULTS = 50"
    by (simp add: or_default_def default_config_def)
  have c: "truncateObject default_config (JArr [JArr [JNum 1], JStr (str ''x'')])
           = JArr [JArr [JNum 1], JStr (str ''x'')]"
    by (simp add: truncateString_def MAX_STRING_LENGTH_def str_def)
  have d: "int (length (JSON_stringify (JArr [JArr [JNum 1], JStr (str ''x'')])))
           \<le> or_default (maxResponseSize default_config) DEFAULT_MAX_RESPONSE_SIZE"
    by (simp add: JSON_stringify_def QuoteJSONString_def str_def show_int_def show_nat.simps
        or_default_def default_config_def escape_unit_def is_high_surrogate_def
        is_low_surrogate_def)
  show ?thesis
    using limitResults_identity [OF a, of default_config] b c d by blast
qed

text \<open>
  Under the default limits a sequence of fifty strings of 1000 units is no longer than
  \<open>maxResults\<close>, and the pipeline replaces it by the wrapper of stage 3; a sequence of
  one string of 1001 units comes back with the string shortened.
\<close>

theorem shaper_identity_counterexample:
  "int (length (replicate 50 (JStr (replicate 1000 0x61))))
     \<le> or_default (maxResults default_config) DEFAULT_MAX_RESULTS
   \<and> processResponse default_config (JArr (replicate 50 (JStr (replicate 1000 0x61))))
       = JObj [(str ''results'', JArr (replicate 39 (JStr (replicate 1000 0x61)))),
               (str ''total_available'', JNum 50),
               (str ''returned'', JNum 39),
               (str ''truncated'', JBool True),
               (str ''message'', JStr (size_message 39 50))]
   \<and> processResponse default_config (JArr (replicate 50 (JStr (replicate 1000 0x61))))
       \<noteq> JArr (replicate 50 (JStr (replicate 1000 0x61)))
   \<and> int (length [JStr (replicate 1001 0x61)])
       \<le> or_default (maxResults default_config) DEFAULT_MAX_RESULTS
   \<and> processResponse default_config (JArr [JStr (replicate 1001 0x61)])
       = JArr [JStr (replicate 1000 0x61 @ str ''... [truncated]'')]
   \<and> processResponse default_config (JArr [JStr (replicate 1001 0x61)])
       \<noteq> JArr [JStr (replicate 1001 0x61)]"
proof -
  have "replicate 1000 (0x61 :: unit16) @ str ''... [truncated]'' \<noteq> replicate 1001 0x61"
  proof
    assume "replicate 1000 (0x61 :: unit16) @ str ''... [truncated]'' = replicate 1001 0x61"
    then have "length (replicate 1000 (0x61 :: unit16) @ str ''... [truncated]'')
               = length (replicate 1001 (0x61 :: unit16))"
      by (rule arg_cong)
    then show False by (simp add: str_def)
  qed
  then show ?thesis
    unfolding fifty_strings_default truncated_string_default
    by (simp add: or_default_def default_config_def)
qed

text \<open>
  C1, as the code has it. With truncation enabled, let \<open>p\<close> be what stages 1 and 2 make
  of the response. If \<open>p\<close> serialises within \<open>maxResponseSize\<close>, the pipeline returns \<open>p\<close>
  and the bound holds. If it does not and \<open>p\<close> is a sequence, the pipeline returns the
  wrapper of the first \<open>max 1 (maxItems \<dots>)\<close> elements of \<open>p\<close>, a number estimated from
  the average size of an element; the code does not bound the size of that wrapper.
\<close>

theorem processResponse_size_cases:
  assumes "truncationOn cfg"
    and "p = truncateObject cfg (limitResults (or_default (maxResults cfg) DEFAULT_MAX_RESULTS) data)"
    and "maxSize = or_default (maxResponseSize cfg) DEFAULT_MAX_RESPONSE_SIZE"
  shows "(int (length (JSON_stringify p)) \<le> maxSize \<longrightarrow>
            processResponse cfg data = p
            \<and> int (length (JSON_stringify (processResponse cfg data))) \<le> maxSize)
       \<and> (maxSize < int (length (JSON_stringify p)) \<and> p = JArr xs \<longrightarrow>
            processResponse cfg data =
              JObj [(str ''results'',
                       JArr (slice0 (max 1 (maxItems maxSize (length (JSON_stringify p)) (length xs))) xs)),
                    (str ''total_available'', JNum (int (length xs))),
                    (str ''returned'',
                       JNum (max 1 (maxItems maxSize (length (JSON_stringify p)) (length xs)))),
                    (str ''truncated'', JBool True),
                    (str ''message'',
                       JStr (size_message
                               (max 1 (maxItems maxSize (length (JSON_stringify p)) (length xs)))
                               (length xs)))])"
proof -
  have pr: "processResponse cfg data = enforceResponseSize cfg p"
    by (simp add: processResponse_def assms(2))
  have A: "int (length (JSON_stringify p)) \<le> maxSize \<longrightarrow>
            processResponse cfg data = p
            \<and> int (length (JSON_stringify (processResponse cfg data))) \<le> maxSize"
    unfolding pr assms(3) using enforce_fits [of p cfg] by simp
  have C: "maxSize < int (length (JSON_stringify p)) \<and> p = JArr xs \<longrightarrow>
            processResponse cfg data =
              JObj [(str ''results'',
                       JArr (slice0 (max 1 (maxItems maxSize (length (JSON_stringify p)) (length xs))) xs)),
                    (str ''total_available'', JNum (int (length xs))),
                    (str ''returned'',
                       JNum (max 1 (maxItems maxSize (length (JSON_stringify p)) (length xs)))),
                    (str ''truncated'', JBool True),
                    (str ''message'',
                       JStr (size_message
                               (max 1 (maxItems maxSize (length (JSON_stringify p)) (length xs)))
                               (length xs)))]"
    unfolding pr assms(3) using enforce_array_over [of cfg xs] by auto
  from A C show ?thesis by blast
qed

theorem processResponse_size_cases_witness:
  "processResponse default_config (JArr [JNum 1]) = JArr [JNum 1]
   \<and> int (length (JSON_stringify (processResponse default_config (JArr [JNum 1])))) \<le> 50000
   \<and> processResponse default_config (JArr (replicate 50 (JStr (replicate 1000 0x61))))
       = JObj [(str ''results'', JArr (replicate 39 (JStr (replicate 1000 0x61)))),
               (str ''total_available'', JNum 50),
               (str ''returned'', JNum 39),
               (str ''truncated'', JBool True),
               (str ''message'', JStr (size_message 39 50))]"
proof -
  have on: "truncationOn default_config"
    by (simp add: truncationOn_def default_config_def)
  have lim: "or_default (maxResults default_config) DEFAULT_MAX_RESULTS = 50"
    by (simp add: or_default_def default_config_def)
  have sz: "50000 = or_default (maxResponseSize default_config) DEFAULT_MAX_RESPONSE_SIZE"
    by (simp add: or_default_def default_config_def)
  have p1: "JArr [JNum 1] = truncateObject default_config
              (limitResults (or_default (maxResults default_config) DEFAULT_MAX_RESULTS) (JArr [JNum 1]))"
    unfolding lim by (simp add: slice0_def Let_def on)
  have fit: "int (length (JSON_stringify (JArr [JNum 1]))) \<le> 50000"
    by (simp add: JSON_stringify_def str_def show_int_def show_nat.simps)
  let ?d = "JArr (replicate 50 (JStr (replicate 1000 0x61)))"
  have p2: "?d = truncateObject default_config
              (limitResults (or_default (maxResults default_config) DEFAULT_MAX_RESULTS) ?d)"
    unfolding lim
    by (simp add: slice0_def Let_def on truncateString_def MAX_STRING_LENGTH_def)
  have len: "length (JSON_stringify ?d) = 50151"
    by (simp add: stringify_a_array)
  have over: "50000 < int (length (JSON_stringify ?d))"
    unfolding len by simp
  have mi: "max 1 (maxItems 50000 50151 50) = 39"
    by (simp add: maxItems_def)
  have sl: "slice0 39 (replicate 50 (JStr (replicate 1000 0x61))) = replicate 39 (JStr (replicate 1000 0x61))"
    by (simp add: slice0_def)
  have l50: "length (replicate 50 (JStr (replicate 1000 0x61))) = 50"
    by simp
  note a = processResponse_size_cases [OF on p1 sz]
  note c = processResponse_size_cases [OF on p2 sz, of "replicate 50 (JStr (replicate 1000 0x61))",
      unfolded len mi sl l50]
  show ?thesis
    using a c fit over by simp
qed

text \<open>
  Under the default limits, fifty-one strings of 1000 units each come back as the wrapper
  of stage 1 around the first fifty: 50322 units, more than the 50000 of
  \<open>maxResponseSize\<close>, while each preserved item serialises to 1002 units. And the
  sequence of twenty-five long and twenty-five short elements comes back as the wrapper
  of stage 3 around nineteen long ones: 76411 units, each item 4013.
\<close>

theorem processResponse_size_counterexample:
  "truncationOn default_config
   \<and> or_default (maxResponseSize default_config) DEFAULT_MAX_RESPONSE_SIZE = 50000
   \<and> processResponse default_config (JArr (replicate 51 (JStr (replicate 1000 0x61))))
       = JObj [(str ''results'', JArr (replicate 50 (JStr (replicate 1000 0x61)))),
               (str ''total_available'', JNum 51),
               (str ''returned'', JNum 50),
               (str ''truncated'', JBool True),
               (str ''message'', JStr (limit_message 50 51))]
   \<and> length (JSON_stringify
         (processResponse default_config (JArr (replicate 51 (JStr (replicate 1000 0x61))))))
       = 50322
   \<and> length (JSON_stringify (JStr (replicate 1000 0x61))) = 1002
   \<and> processResponse default_config
         (JArr (replicate 25 (JArr (replicate 4 (JStr (replicate 1000 0x61))))
                  @ replicate 25 (JNum 1)))
       = JObj [(str ''results'',
                  JArr (replicate 19 (JArr (replicate 4 (JStr (replicate 1000 0x61)))))),
               (str ''total_available'', JNum 50),
               (str ''returned'', JNum 19),
               (str ''truncated'', JBool True),
               (str ''message'', JStr (size_message 19 50))]
   \<and> length (JSON_stringify
         (processResponse default_config
            (JArr (replicate 25 (JArr (replicate 4 (JStr (replicate 1000 0x61))))
                     @ replicate 25 (JNum 1)))))
       = 76411
   \<and> length (JSON_stringify (JArr (replicate 4 (JStr (replicate 1000 0x61))))) = 4013"
proof -
  have on: "truncationOn default_config"
    by (simp add: truncationOn_def default_config_def)
  have lim: "or_default (maxResults default_config) DEFAULT_MAX_RESULTS = 50"
    by (simp add: or_default_def default_config_def)
  have sz: "or_default (maxResponseSize default_config) DEFAULT_MAX_RESPONSE_SIZE = 50000"
    by (simp add: or_default_def default_config_def)
  let ?W = "JObj [(str ''results'', JArr (replicate 50 (JStr (replicate 1000 0x61)))),
               (str ''total_available'', JNum 51),
               (str ''returned'', JNum 50),
               (str ''truncated'', JBool True),
               (str ''message'', JStr (limit_message 50 51))]"
  have "\<not> isArray ?W" by (simp add: isArray_def)
  then have E: "enforceResponseSize default_config ?W = ?W"
    using big_wrapper_truncate enforce_nonarray by blast
  have pr: "processResponse default_config (JArr (replicate 51 (JStr (replicate 1000 0x61)))) = ?W"
    unfolding processResponse_def lim Let_def big_stage1 big_wrapper_truncate E ..
  show ?thesis
    unfolding pr mixed_default
    using on sz big_wrapper_length stringify_a_string [of 1000] mixed_wrapper_length
      four_strings_length
    by simp
qed

text \<open>
  C2, as the code has it. With truncation off, stage 2 changes nothing and the pipeline
  is stage 3 applied to the result of stage 1. That result is returned as it is when it
  is not a sequence or serialises within \<open>maxResponseSize\<close>; a sequence that serialises
  to more is replaced by the wrapper of stage 3, which does not read the flag.
\<close>

theorem processResponse_truncation_disabled:
  assumes "\<not> truncationOn cfg"
    and "q = limitResults (or_default (maxResults cfg) DEFAULT_MAX_RESULTS) data"
    and "maxSize = or_default (maxResponseSize cfg) DEFAULT_MAX_RESPONSE_SIZE"
  shows "truncateString cfg s n = s
       \<and> truncateObject cfg v = v
       \<and> processResponse cfg data = enforceResponseSize cfg q
       \<and> (\<not> isArray q \<or> int (length (JSON_stringify q)) \<le> maxSize \<longrightarrow>
            processResponse cfg data = q)
       \<and> (q = JArr xs \<and> maxSize < int (length (JSON_stringify q)) \<longrightarrow>
            processResponse cfg data =
              JObj [(str ''results'',
                       JArr (slice0 (max 1 (maxItems maxSize (length (JSON_stringify q)) (length xs))) xs)),
                    (str ''total_available'', JNum (int (length xs))),
                    (str ''returned'',
                       JNum (max 1 (maxItems maxSize (length (JSON_stringify q)) (length xs)))),
                    (str ''truncated'', JBool True),
                    (str ''message'',
                       JStr (size_message
                               (max 1 (maxItems maxSize (length (JSON_stringify q)) (length xs)))
                               (length xs)))])"
proof -
  have S: "truncateString cfg s n = s"
    using assms(1) by (simp add: truncateString_def)
  have T: "\<And>w. truncateObject cfg w = w"
    using assms(1) by (rule truncateObject_off)
  have pr: "processResponse cfg data = enforceResponseSize cfg q"
    by (simp add: processResponse_def assms(2) T)
  have D: "\<not> isArray q \<or> int (length (JSON_stringify q)) \<le> maxSize \<longrightarrow>
            processResponse cfg data = q"
    unfolding pr assms(3) using enforce_fits [of q cfg] enforce_nonarray [of q cfg] T by blast
  have E: "q = JArr xs \<and> maxSize < int (length (JSON_stringify q)) \<longrightarrow>
            processResponse cfg data =
              JObj [(str ''results'',
                       JArr (slice0 (max 1 (maxItems maxSize (length (JSON_stringify q)) (length xs))) xs)),
                    (str ''total_available'', JNum (int (length xs))),
                    (str ''returned'',
                       JNum (max 1 (maxItems maxSize (length (JSON_stringify q)) (length xs)))),
                    (str ''truncated'', JBool True),
                    (str ''message'',
                       JStr (size_message
                               (max 1 (maxItems maxSize (length (JSON_stringify q)) (length xs)))
                               (length xs)))]"
    unfolding pr assms(3) using enforce_array_over [of cfg xs] by auto
  from S T pr D E show ?thesis by blast
qed

theorem processResponse_truncation_disabled_witness:
  "processResponse truncation_off_config (JObj [(str ''a'', JStr (replicate 1001 0x61))])
     = JObj [(str ''a'', JStr (replicate 1001 0x61))]
   \<and> truncateObject truncation_off_config (JStr (replicate 1001 0x61)) = JStr (replicate 1001 0x61)
   \<and> processResponse (truncation_off_config \<lparr> maxResults := Some 2 \<rparr>)
        (JArr [JNum 10, JNum 20, JNum 30])
       = limitResults 2 (JArr [JNum 10, JNum 20, JNum 30])
   \<and> isArray (JArr [JNum 10, JNum 20, JNum 30])
   \<and> \<not> isArray (limitResults 2 (JArr [JNum 10, JNum 20, JNum 30]))"
proof -
  have off: "\<not> truncationOn truncation_off_config"
    by (simp add: truncationOn_def truncation_off_config_def default_config_def)
  have off2: "\<not> truncationOn (truncation_off_config \<lparr> maxResults := Some 2 \<rparr>)"
    by (simp add: truncationOn_def truncation_off_config_def default_config_def)
  let ?o = "JObj [(str ''a'', JStr (replicate 1001 0x61))]"
  have st: "\<And>w. stored [(str ''a'', w)] = [(str ''a'', w)]"
    by (simp add: stored_def str_def)
  have q1: "?o = limitResults (or_default (maxResults truncation_off_config) DEFAULT_MAX_RESULTS) ?o"
    by (simp add: isArray_def st)
  have n1: "\<not> isArray ?o"
    by (simp add: isArray_def)
  have q2: "limitResults 2 (JArr [JNum 10, JNum 20, JNum 30])
          = limitResults (or_default (maxResults (truncation_off_config \<lparr> maxResults := Some 2 \<rparr>))
              DEFAULT_MAX_RESULTS) (JArr [JNum 10, JNum 20, JNum 30])"
    by (simp add: or_default_def)
  have n2: "\<not> isArray (limitResults 2 (JArr [JNum 10, JNum 20, JNum 30]))"
    by (simp add: isArray_def slice0_def Let_def)
  have i: "isArray (JArr [JNum 10, JNum 20, JNum 30])"
    by (simp add: isArray_def)
  note a = processResponse_truncation_disabled [OF off q1 refl,
      of "replicate 1001 0x61" 1000 "JStr (replicate 1001 0x61)"]
  note b = processResponse_truncation_disabled [OF off2 q2 refl]
  show ?thesis
    using a b n1 n2 i by blast
qed

text \<open>
  With truncation off and the default limits otherwise, fifty strings of 1000 units pass
  stage 1 unchanged and leave the pipeline as the wrapper of stage 3 around 39 of them.
\<close>

theorem processResponse_truncation_disabled_counterexample:
  "\<not> truncationOn truncation_off_config
   \<and> limitResults (or_default (maxResults truncation_off_config) DEFAULT_MAX_RESULTS)
        (JArr (replicate 50 (JStr (replicate 1000 0x61))))
       = JArr (replicate 50 (JStr (replicate 1000 0x61)))
   \<and> processResponse truncation_off_config (JArr (replicate 50 (JStr (replicate 1000 0x61))))
       = JObj [(str ''results'', JArr (replicate 39 (JStr (replicate 1000 0x61)))),
               (str ''total_available'', JNum 50),
               (str ''returned'', JNum 39),
               (str ''truncated'', JBool True),
               (str ''message'', JStr (size_message 39 50))]
   \<and> processResponse truncation_off_config (JArr (replicate 50 (JStr (replicate 1000 0x61))))
       \<noteq> limitResults (or_default (maxResults truncation_off_config) DEFAULT_MAX_RESULTS)
            (JArr (replicate 50 (JStr (replicate 1000 0x61))))"
proof -
  let ?d = "JArr (replicate 50 (JStr (replicate 1000 0x61)))"
  have off: "\<not> truncationOn truncation_off_config"
    by (simp add: truncationOn_def truncation_off_config_def default_config_def)
  have lim: "or_default (maxResults truncation_off_config) DEFAULT_MAX_RESULTS = 50"
    by (simp add: or_default_def truncation_off_config_def default_config_def)
  have sz: "or_default (maxResponseSize truncation_off_config) DEFAULT_MAX_RESPONSE_SIZE = 50000"
    by (simp add: or_default_def truncation_off_config_def default_config_def)
  have L: "limitResults 50 ?d = ?d"
    by (simp add: slice0_def Let_def)
  have len: "length (JSON_stringify ?d) = 50151"
    by (simp add: stringify_a_array)
  have mi: "max 1 (maxItems 50000 50151 50) = 39"
    by (simp add: maxItems_def)
  have E: "enforceResponseSize truncation_off_config ?d =
      JObj [(str ''results'', JArr (replicate 39 (JStr (replicate 1000 0x61)))),
               (str ''total_available'', JNum 50),
               (str ''returned'', JNum 39),
               (str ''truncated'', JBool True),
               (str ''message'', JStr (size_message 39 50))]"
    using enforce_array_over [of truncation_off_config "replicate 50 (JStr (replicate 1000 0x61))"]
    unfolding sz len by (simp add: mi slice0_def)
  have pr: "processResponse truncation_off_config ?d = enforceResponseSize truncation_off_config ?d"
    unfolding processResponse_def lim Let_def L truncateObject_off [OF off] ..
  show ?thesis
    unfolding lim L pr E using off by simp
qed


section \<open>Idempotence of the pipeline\<close>





section \<open>Query parameters\<close>

lemma append_each_strings:
  "list_all is_string vs \<Longrightarrow> append_each key vs sp = Inr (sp @ map (\<lambda>v. (key, ToString v)) vs)"
  by (induction vs arbitrary: sp) (auto simp: is_string_def)

lemma append_value_bag:
  "bag_value val \<Longrightarrow> append_value key val sp = Inr (sp @ spec_entry_pairs key val)"
  by (induction key val sp rule: append_value.induct) (simp_all add: append_each_strings)

lemma add_params_bag:
  "argument_bag params \<Longrightarrow> add_params params sp = Inr (sp @ spec_query_pairs params)"
proof (induction params arbitrary: sp)
  case Nil
  then show ?case by (simp add: spec_query_pairs_def)
next
  case (Cons p params)
  obtain key val where p: "p = (key, val)" by (cases p)
  have val: "bag_value val" and rest: "argument_bag params"
    using Cons.prems p by (simp_all add: argument_bag_def)
  have "add_params (p # params) sp = add_params params (sp @ spec_entry_pairs key val)"
    using p append_value_bag [OF val] by simp
  also have "\<dots> = Inr ((sp @ spec_entry_pairs key val) @ spec_query_pairs params)"
    using Cons.IH [OF rest] by blast
  also have "\<dots> = Inr (sp @ spec_query_pairs (p # params))"
    using p by (simp add: spec_query_pairs_def)
  finally show ?case .
qed

lemma spec_entry_pairs_keys:
  "fst ` set (spec_entry_pairs key val) \<subseteq> (if val = None \<or> val = Some JNull then {} else {key})"
  by (induction key val rule: spec_entry_pairs.induct) auto

lemma spec_query_pairs_keys:
  assumes "k \<in> fst ` set (spec_query_pairs params)"
  shows "\<exists>val. (k, val) \<in> set params \<and> val \<noteq> None \<and> val \<noteq> Some JNull"
proof -
  from assms obtain key val where p: "(key, val) \<in> set params"
    and k: "k \<in> fst ` set (spec_entry_pairs key val)"
    unfolding spec_query_pairs_def by auto
  from k spec_entry_pairs_keys [of key val]
  have "k = key \<and> val \<noteq> None \<and> val \<noteq> Some JNull"
    by (auto split: if_splits)
  with p show ?thesis by blast
qed

lemma makeRequest_url:
  assumes "baseUrl cfg = Some base" and "argument_bag params"
  shows "map url (snd (makeRequest cfg fetch endpoint params)) =
           [base @ endpoint @ (if spec_query_pairs params = [] then []
                               else 0x3F # serialize_query (spec_query_pairs params))]"
  using assms add_params_bag [OF assms(2), of "[]"]
  by (simp add: makeRequest_def Let_def split: fetch_result.splits sum.splits)

lemma example_bag_ok: "argument_bag example_bag"
  by (simp add: argument_bag_def example_bag_def is_string_def is_scalar_def)

lemma example_pairs:
  "spec_query_pairs example_bag =
     [(str ''domain'', str ''example.com''), (str ''device_id'', str ''a''),
      (str ''device_id'', str ''b'')]"
  by (simp add: spec_query_pairs_def example_bag_def)

lemma example_query:
  "serialize_query [(str ''domain'', str ''example.com''), (str ''device_id'', str ''a''),
      (str ''device_id'', str ''b'')] = str ''domain=example.com&device_id=a&device_id=b''"
  by (simp add: serialize_query_def form_urlencode_def urlencode_byte_def utf8_bytes_def
      str_def is_high_surrogate_def is_low_surrogate_def)

lemma example_url:
  "str ''https://api.whalebone.io/whalebone/2'' @ str ''/events/search''
     @ 0x3F # str ''domain=example.com&device_id=a&device_id=b''
   = str ''https://api.whalebone.io/whalebone/2/events/search?domain=example.com&device_id=a&device_id=b''"
  by (simp add: str_def)

text \<open>
  C8. For an argument bag, the loops of \<open>makeRequest\<close> build the query the
  specification describes: one pair per scalar value, one pair per element of a sequence
  in the order of the elements, nothing for an absent or null value, so that a key with
  only such values is not in the query; and the request goes to \<open>baseUrl\<close>, the endpoint
  and, after a question mark, the serialised pairs.
\<close>

theorem query_parameters:
  assumes "argument_bag params"
  shows "add_params params [] = Inr (spec_query_pairs params)
       \<and> ((\<forall>val. (k, val) \<in> set params \<longrightarrow> val = None \<or> val = Some JNull)
            \<longrightarrow> k \<notin> fst ` set (spec_query_pairs params))
       \<and> (baseUrl cfg = Some base \<longrightarrow>
            map url (snd (makeRequest cfg fetch endpoint params)) =
              [base @ endpoint @ (if spec_query_pairs params = [] then []
                                  else 0x3F # serialize_query (spec_query_pairs params))])"
proof -
  have "add_params params [] = Inr (spec_query_pairs params)"
    using add_params_bag [OF assms, of "[]"] by simp
  moreover have "(\<forall>val. (k, val) \<in> set params \<longrightarrow> val = None \<or> val = Some JNull)
            \<longrightarrow> k \<notin> fst ` set (spec_query_pairs params)"
    using spec_query_pairs_keys [of k params] by blast
  moreover have "baseUrl cfg = Some base \<longrightarrow>
            map url (snd (makeRequest cfg fetch endpoint params)) =
              [base @ endpoint @ (if spec_query_pairs params = [] then []
                                  else 0x3F # serialize_query (spec_query_pairs params))]"
    using makeRequest_url [OF _ assms] by blast
  ultimately show ?thesis by blast
qed

theorem query_parameters_witness:
  "add_params example_bag [] =
     Inr [(str ''domain'', str ''example.com''), (str ''device_id'', str ''a''),
          (str ''device_id'', str ''b'')]
   \<and> serialize_query [(str ''domain'', str ''example.com''), (str ''device_id'', str ''a''),
          (str ''device_id'', str ''b'')]
       = str ''domain=example.com&device_id=a&device_id=b''
   \<and> str ''limit'' \<notin> fst ` set (spec_query_pairs example_bag)
   \<and> map url (snd (makeRequest default_config (\<lambda>req. NetworkFailure [])
                      (str ''/events/search'') example_bag))
       = [str ''https://api.whalebone.io/whalebone/2/events/search?domain=example.com&device_id=a&device_id=b'']"
proof -
  have nolimit: "\<forall>val. (str ''limit'', val) \<in> set example_bag \<longrightarrow> val = None \<or> val = Some JNull"
    by (simp add: example_bag_def str_def)
  have base: "baseUrl default_config = Some (str ''https://api.whalebone.io/whalebone/2'')"
    by (simp add: default_config_def)
  note th = query_parameters [OF example_bag_ok, of "str ''limit''" default_config
      "str ''https://api.whalebone.io/whalebone/2''" "\<lambda>req. NetworkFailure []"
      "str ''/events/search''", unfolded example_pairs example_query]
  have "map url (snd (makeRequest default_config (\<lambda>req. NetworkFailure [])
                      (str ''/events/search'') example_bag))
       = [str ''https://api.whalebone.io/whalebone/2'' @ str ''/events/search''
            @ 0x3F # str ''domain=example.com&device_id=a&device_id=b'']"
    using th base by simp
  then show ?thesis
    using th nolimit example_query unfolding example_url example_pairs by blast
qed


section \<open>Errors at the boundary\<close>

lemma makeRequest_bad_status:
  assumes "\<forall>req. fetch req = Response status statusText body"
    and "\<not> (200 \<le> status \<and> status \<le> 299)"
  shows "(\<exists>e. makeRequest cfg fetch endpoint params = (Inl e, []))
       \<or> (\<exists>req. makeRequest cfg fetch endpoint params = (Inl (ApiError status statusText), [req]))"
  using assms by (simp add: makeRequest_def Let_def response_ok_def split: option.splits sum.splits)

lemma makeRequest_bad_status_sent:
  assumes "\<forall>req. fetch req = Response status statusText body"
    and "\<not> (200 \<le> status \<and> status \<le> 299)"
    and "baseUrl cfg \<noteq> None" and "argument_bag params"
  shows "\<exists>req. makeRequest cfg fetch endpoint params = (Inl (ApiError status statusText), [req])"
  using assms add_params_bag [OF assms(4), of "[]"]
  by (auto simp: makeRequest_def Let_def response_ok_def)

lemma dispatch_tools:
  "dispatch cfg fetch (str ''search_events'') toolArgs
     = makeRequest cfg fetch (str ''/events/search'') (entries toolArgs)"
  "dispatch cfg fetch (str ''get_events_timeline'') toolArgs
     = makeRequest cfg fetch (str ''/events/timeline'') (entries toolArgs)"
  "dispatch cfg fetch (str ''get_events_stats'') toolArgs
     = makeRequest cfg fetch (str ''/events/stats'') (entries toolArgs)"
  "dispatch cfg fetch (str ''get_dns_timeline'') toolArgs
     = makeRequest cfg fetch (str ''/dns/timeline'') (entries toolArgs)"
  "dispatch cfg fetch (str ''get_dnssec_timeline'') toolArgs
     = makeRequest cfg fetch (str ''/dnssec/timeline'') (entries toolArgs)"
  "dispatch cfg fetch (str ''get_resolver_metrics'') toolArgs
     = makeRequest cfg fetch (str ''/resolver/metrics'') (entries toolArgs)"
  "dispatch cfg fetch (str ''get_ioc_count'') toolArgs
     = makeRequest cfg fetch (str ''/ioc/count'') []"
  "dispatch cfg fetch (str ''analyze_domain'') toolArgs
     = (if \<not> truthy (map_of toolArgs (str ''fqdn'')) then (Inl MissingFqdn, [])
        else makeRequest cfg fetch (str ''/domain/analysis'')
               [(str ''fqdn'', map_of toolArgs (str ''fqdn''))])"
  by (simp_all add: dispatch_def searchEvents_def getEventsTimeline_def getEventsStats_def
      getDnsTimeline_def getDnssecTimeline_def getIocCount_def getResolverMetrics_def
      getDomainAnalysis_def str_def)

lemma dispatch_request_tools:
  assumes "name \<in> set request_tools"
  shows "\<exists>endpoint. dispatch cfg fetch name toolArgs
           = makeRequest cfg fetch endpoint (entries toolArgs)"
proof -
  from assms consider "name = str ''search_events''" | "name = str ''get_events_timeline''"
    | "name = str ''get_events_stats''" | "name = str ''get_dns_timeline''"
    | "name = str ''get_dnssec_timeline''" | "name = str ''get_resolver_metrics''"
    unfolding request_tools_def by fastforce
  then show ?thesis
    by cases (use dispatch_tools in blast)+
qed

lemma dispatch_bad_status:
  assumes "\<forall>req. fetch req = Response status statusText body"
    and "\<not> (200 \<le> status \<and> status \<le> 299)"
  shows "(\<exists>e. dispatch cfg fetch name toolArgs = (Inl e, []))
       \<or> (\<exists>req. dispatch cfg fetch name toolArgs = (Inl (ApiError status statusText), [req]))"
  unfolding dispatch_def searchEvents_def getEventsTimeline_def getEventsStats_def
    getDnsTimeline_def getDnssecTimeline_def getIocCount_def getResolverMetrics_def
    getDomainAnalysis_def
  using makeRequest_bad_status [OF assms] by simp

lemma dispatch_sent:
  assumes "\<forall>req. fetch req = Response status statusText body"
    and "\<not> (200 \<le> status \<and> status \<le> 299)"
    and "baseUrl cfg \<noteq> None"
    and "name \<in> set request_tools \<and> argument_bag (entries toolArgs)
         \<or> name = str ''get_ioc_count''
         \<or> name = str ''analyze_domain'' \<and> truthy (map_of toolArgs (str ''fqdn''))
            \<and> argument_bag [(str ''fqdn'', map_of toolArgs (str ''fqdn''))]"
  shows "\<exists>req. dispatch cfg fetch name toolArgs = (Inl (ApiError status statusText), [req])"
proof -
  have nil: "argument_bag []" by (simp add: argument_bag_def)
  note mk = makeRequest_bad_status_sent [OF assms(1,2,3)]
  from assms(4) consider
      (tools) "name \<in> set request_tools" "argument_bag (entries toolArgs)"
    | (ioc) "name = str ''get_ioc_count''"
    | (dom) "name = str ''analyze_domain''" "truthy (map_of toolArgs (str ''fqdn''))"
        "argument_bag [(str ''fqdn'', map_of toolArgs (str ''fqdn''))]"
    by blast
  then show ?thesis
  proof cases
    case tools
    then obtain endpoint where "dispatch cfg fetch name toolArgs
           = makeRequest cfg fetch endpoint (entries toolArgs)"
      using dispatch_request_tools by blast
    then show ?thesis using mk [OF tools(2), where endpoint = endpoint] by simp
  next
    case ioc
    then show ?thesis
      using mk [OF nil, where endpoint = "str ''/ioc/count''"] by (simp only: dispatch_tools(7))
  next
    case dom
    then show ?thesis
      using mk [OF dom(3), where endpoint = "str ''/domain/analysis''"]
      by (simp only: dispatch_tools(8) if_False simp_thms)
  qed
qed

lemma error_result_fields:
  "field ''isError'' (error_result e) = Some (JBool True)"
  "field ''results'' (error_result e) = None"
  by (simp_all add: error_result_def Let_def field_def str_def)

lemma api_error_text:
  "error_result (ApiError status statusText) =
     JObj [(str ''content'',
              JArr [JObj [(str ''type'', JStr (str ''text'')),
                          (str ''text'',
                             JStr (str ''Error: Whalebone API error: '' @ show_nat status
                                     @ str '' '' @ statusText
                                     @ (if js_includes (error_message (ApiError status statusText)) ''too large''
                                           \<or> js_includes (error_message (ApiError status statusText)) ''truncated''
                                        then size_tip else [])))]]),
           (str ''isError'', JBool True)]"
  by (simp add: error_result_def Let_def str_def)

lemma not_includes_503:
  "\<not> js_includes (error_message (ApiError 503 (str ''Service Unavailable''))) ''too large''"
  "\<not> js_includes (error_message (ApiError 503 (str ''Service Unavailable''))) ''truncated''"
  by (simp_all add: js_includes_def str_def show_nat.simps sublist_Cons_right)

text \<open>
  C9. When the remote API answers every request with a status outside 200 to 299, a
  tool call that issues a request fails with the error that carries the status and the
  status text; the caller receives the text payload \<open>Error: Whalebone API error:\<close>
  followed by the status and the status text, with \<open>isError\<close> set and no \<open>results\<close>
  field. The handler returns this payload; nothing is thrown past it. A call to one of
  the tools, with a base URL configured and an argument bag, does issue the request.
\<close>

theorem api_error_reported:
  assumes "\<forall>req. fetch req = Response status statusText body"
    and "\<not> (200 \<le> status \<and> status \<le> 299)"
  shows "(snd (callTool cfg fetch name args) \<noteq> [] \<longrightarrow>
            fst (callTool cfg fetch name args) = error_result (ApiError status statusText))
       \<and> field ''isError'' (fst (callTool cfg fetch name args)) = Some (JBool True)
       \<and> field ''results'' (fst (callTool cfg fetch name args)) = None
       \<and> (baseUrl cfg \<noteq> None
            \<and> (name \<in> set request_tools \<and> argument_bag (entries toolArgs)
                 \<or> name = str ''get_ioc_count''
                 \<or> name = str ''analyze_domain'' \<and> truthy (map_of toolArgs (str ''fqdn''))
                    \<and> argument_bag [(str ''fqdn'', map_of toolArgs (str ''fqdn''))])
            \<longrightarrow> (\<exists>req. callTool cfg fetch name (Some toolArgs)
                          = (error_result (ApiError status statusText), [req])))
       \<and> error_result (ApiError status statusText) =
           JObj [(str ''content'',
                    JArr [JObj [(str ''type'', JStr (str ''text'')),
                                (str ''text'',
                                   JStr (str ''Error: Whalebone API error: '' @ show_nat status
                                           @ str '' '' @ statusText
                                           @ (if js_includes (error_message (ApiError status statusText)) ''too large''
                                                 \<or> js_includes (error_message (ApiError status statusText)) ''truncated''
                                              then size_tip else [])))]]),
                 (str ''isError'', JBool True)]"
proof -
  define toolArgs' where "toolArgs' = (case args of None \<Rightarrow> [] | Some a \<Rightarrow> a)"
  have ct: "callTool cfg fetch name args =
      (case dispatch cfg fetch name toolArgs' of
           (Inr result, sent) \<Rightarrow>
             (JObj [(str ''content'',
                       JArr [JObj [(str ''type'', JStr (str ''text'')),
                                   (str ''text'', JStr (JSON_stringify_pretty result))]])],
              sent)
         | (Inl e, sent) \<Rightarrow> (error_result e, sent))"
    by (simp add: callTool_def toolArgs'_def)
  from dispatch_bad_status [OF assms, of cfg name toolArgs']
  consider e where "dispatch cfg fetch name toolArgs' = (Inl e, [])"
    | req where "dispatch cfg fetch name toolArgs' = (Inl (ApiError status statusText), [req])"
    by blast
  then have A: "(snd (callTool cfg fetch name args) \<noteq> [] \<longrightarrow>
            fst (callTool cfg fetch name args) = error_result (ApiError status statusText))
       \<and> field ''isError'' (fst (callTool cfg fetch name args)) = Some (JBool True)
       \<and> field ''results'' (fst (callTool cfg fetch name args)) = None"
    by cases (simp_all add: ct error_result_fields)
  have B: "baseUrl cfg \<noteq> None
            \<and> (name \<in> set request_tools \<and> argument_bag (entries toolArgs)
                 \<or> name = str ''get_ioc_count''
                 \<or> name = str ''analyze_domain'' \<and> truthy (map_of toolArgs (str ''fqdn''))
                    \<and> argument_bag [(str ''fqdn'', map_of toolArgs (str ''fqdn''))])
            \<longrightarrow> (\<exists>req. callTool cfg fetch name (Some toolArgs)
                          = (error_result (ApiError status statusText), [req]))"
  proof
    assume h: "baseUrl cfg \<noteq> None
            \<and> (name \<in> set request_tools \<and> argument_bag (entries toolArgs)
                 \<or> name = str ''get_ioc_count''
                 \<or> name = str ''analyze_domain'' \<and> truthy (map_of toolArgs (str ''fqdn''))
                    \<and> argument_bag [(str ''fqdn'', map_of toolArgs (str ''fqdn''))])"
    then obtain req where "dispatch cfg fetch name toolArgs = (Inl (ApiError status statusText), [req])"
      using dispatch_sent [OF assms, of cfg name toolArgs] by blast
    then show "\<exists>req. callTool cfg fetch name (Some toolArgs)
                          = (error_result (ApiError status statusText), [req])"
      by (simp add: callTool_def)
  qed
  from A B api_error_text [of status statusText] show ?thesis by blast
qed

theorem api_error_reported_witness:
  "fst (callTool default_config (\<lambda>req. Response 503 (str ''Service Unavailable'') (Inl []))
          (str ''search_events'') (Some [(str ''domain'', JStr (str ''example.com''))]))
     = JObj [(str ''content'',
                JArr [JObj [(str ''type'', JStr (str ''text'')),
                            (str ''text'',
                               JStr (str ''Error: Whalebone API error: '' @ show_nat 503
                                       @ str '' '' @ str ''Service Unavailable''))]]),
             (str ''isError'', JBool True)]
   \<and> length (snd (callTool default_config
                    (\<lambda>req. Response 503 (str ''Service Unavailable'') (Inl []))
                    (str ''search_events'') (Some [(str ''domain'', JStr (str ''example.com''))])))
       = 1"
proof -
  let ?fetch = "\<lambda>req :: request. Response 503 (str ''Service Unavailable'') (Inl [])"
  have r: "\<forall>req. ?fetch req = Response 503 (str ''Service Unavailable'') (Inl [])"
    by simp
  have s: "\<not> (200 \<le> (503::nat) \<and> (503::nat) \<le> 299)"
    by simp
  have b: "baseUrl default_config \<noteq> None"
    by (simp add: default_config_def)
  have t: "str ''search_events'' \<in> set request_tools"
    by (simp add: request_tools_def)
  have a: "argument_bag (entries [(str ''domain'', JStr (str ''example.com''))])"
    by (simp add: argument_bag_def entries_def is_scalar_def)
  note th = api_error_reported [of ?fetch 503 "str ''Service Unavailable''" "Inl []",
      OF r s, of default_config "str ''search_events''"
        "Some [(str ''domain'', JStr (str ''example.com''))]"
        "[(str ''domain'', JStr (str ''example.com''))]"]
  from th b t a obtain req where
    c: "callTool default_config ?fetch (str ''search_events'')
          (Some [(str ''domain'', JStr (str ''example.com''))])
        = (error_result (ApiError 503 (str ''Service Unavailable'')), [req])"
    by blast
  from th not_includes_503 have
    e: "error_result (ApiError 503 (str ''Service Unavailable'')) =
           JObj [(str ''content'',
                    JArr [JObj [(str ''type'', JStr (str ''text'')),
                                (str ''text'',
                                   JStr (str ''Error: Whalebone API error: '' @ show_nat 503
                                           @ str '' '' @ str ''Service Unavailable''))]]),
                 (str ''isError'', JBool True)]"
    by simp
  show ?thesis
    unfolding c using e by simp
qed

lemma not_includes_fqdn_message:
  "\<not> js_includes (str ''fqdn parameter is required'') ''too large''"
  "\<not> js_includes (str ''fqdn parameter is required'') ''truncated''"
  by (simp_all add: js_includes_def str_def sublist_Cons_right)

lemma missing_fqdn_result:
  "error_result MissingFqdn =
     JObj [(str ''content'',
              JArr [JObj [(str ''type'', JStr (str ''text'')),
                          (str ''text'', JStr (str ''Error: fqdn parameter is required''))]]),
           (str ''isError'', JBool True)]"
  using not_includes_fqdn_message by (simp add: error_result_def Let_def str_def)

lemma analyze_domain_name:
  "str ''analyze_domain'' \<noteq> str ''search_events''"
  "str ''analyze_domain'' \<noteq> str ''get_events_timeline''"
  "str ''analyze_domain'' \<noteq> str ''get_events_stats''"
  "str ''analyze_domain'' \<noteq> str ''get_dns_timeline''"
  "str ''analyze_domain'' \<noteq> str ''get_dnssec_timeline''"
  "str ''analyze_domain'' \<noteq> str ''get_ioc_count''"
  "str ''analyze_domain'' \<noteq> str ''get_resolver_metrics''"
  by (simp_all add: str_def)

text \<open>
  C10. \<open>analyze_domain\<close> called with an argument bag that has no \<open>fqdn\<close> entry (or
  a falsy one, or with no bag at all) fails with the error \<open>fqdn parameter is required\<close>,
  reported as the error payload, and issues no request.
\<close>

theorem analyze_domain_without_fqdn:
  assumes "\<not> truthy (map_of (case args of None \<Rightarrow> [] | Some a \<Rightarrow> a) (str ''fqdn''))"
  shows "callTool cfg fetch (str ''analyze_domain'') args =
           (JObj [(str ''content'',
                     JArr [JObj [(str ''type'', JStr (str ''text'')),
                                 (str ''text'', JStr (str ''Error: fqdn parameter is required''))]]),
                  (str ''isError'', JBool True)],
            [])"
proof -
  have "dispatch cfg fetch (str ''analyze_domain'') (case args of None \<Rightarrow> [] | Some a \<Rightarrow> a)
        = (Inl MissingFqdn, [])"
    unfolding dispatch_def using assms analyze_domain_name by simp
  then show ?thesis
    by (simp add: callTool_def Let_def missing_fqdn_result)
qed

theorem analyze_domain_without_fqdn_witness:
  "callTool default_config (\<lambda>req. NetworkFailure []) (str ''analyze_domain'')
       (Some [(str ''domain'', JStr (str ''example.com''))])
     = (JObj [(str ''content'',
                 JArr [JObj [(str ''type'', JStr (str ''text'')),
                             (str ''text'', JStr (str ''Error: fqdn parameter is required''))]]),
              (str ''isError'', JBool True)],
        [])"
proof -
  have a: "\<not> truthy (map_of (case Some [(str ''domain'', JStr (str ''example.com''))] of
                            None \<Rightarrow> [] | Some a \<Rightarrow> a) (str ''fqdn''))"
    by (simp add: str_def)
  show ?thesis
    using analyze_domain_without_fqdn [OF a] by blast
qed

end
